theory Spec2Isabelle
  imports Complex_Main "HOL-Library.Word" "HOL-Library.Log_Nat"
begin

section \<open>JavaScript values\<close>

text \<open>
  A JavaScript string is a sequence of UTF-16 code units.  \<open>js\<close> embeds an ASCII literal
  of the source.
\<close>

type_synonym jsstring = "16 word list"

definition js :: "string \<Rightarrow> jsstring" where
  "js s = map of_char s"

text \<open>
  The values the pages handle at run time (TypeScript types are erased): what
  \<open>JSON.parse\<close> builds, plus \<open>undefined\<close>.  An object is the association list of its own
  properties; \<open>JSON.parse\<close> builds objects whose keys are distinct.
\<close>

datatype jsval =
    JUndefined
  | JNull
  | JBool bool
  | JNum rat
  | JStr jsstring
  | JArr "jsval list"
  | JObj "(jsstring \<times> jsval) list"

text \<open>ToBoolean.\<close>

fun truthy :: "jsval \<Rightarrow> bool" where
  "truthy JUndefined = False"
| "truthy JNull = False"
| "truthy (JBool b) = b"
| "truthy (JNum n) = (n \<noteq> 0)"
| "truthy (JStr s) = (s \<noteq> [])"
| "truthy (JArr xs) = True"
| "truthy (JObj kvs) = True"

fun nullish :: "jsval \<Rightarrow> bool" where
  "nullish JUndefined = True"
| "nullish JNull = True"
| "nullish v = False"

text \<open>\<open>a ?? b\<close>\<close>

definition nullish_or :: "jsval \<Rightarrow> jsval \<Rightarrow> jsval" where
  "nullish_or a b = (if nullish a then b else a)"

text \<open>\<open>Array.isArray\<close>\<close>

fun isArray :: "jsval \<Rightarrow> bool" where
  "isArray (JArr xs) = True"
| "isArray v = False"

text \<open>
  The property read \<open>v.k\<close> on a value that is neither \<open>null\<close> nor \<open>undefined\<close>, for the
  property names the pages read (\<open>messages\<close>, \<open>leadId\<close>, \<open>name\<close>, \<open>leadName\<close>, \<open>data\<close>,
  \<open>visits\<close>, \<open>_id\<close>, \<open>id\<close>, \<open>date\<close>, \<open>ok\<close>, \<open>error\<close>, \<open>length\<close>): none of them is an array
  index or inherited from a prototype, so a primitive has none of them but \<open>length\<close> of
  a string.
\<close>

fun getprop :: "jsval \<Rightarrow> jsstring \<Rightarrow> jsval" where
  "getprop (JObj kvs) k = (case map_of kvs k of None \<Rightarrow> JUndefined | Some v \<Rightarrow> v)"
| "getprop (JArr xs) k = (if k = js ''length'' then JNum (of_nat (length xs)) else JUndefined)"
| "getprop (JStr s) k = (if k = js ''length'' then JNum (of_nat (length s)) else JUndefined)"
| "getprop v k = JUndefined"

text \<open>\<open>v?.k\<close>\<close>

definition opt_getprop :: "jsval \<Rightarrow> jsstring \<Rightarrow> jsval" where
  "opt_getprop v k = (if nullish v then JUndefined else getprop v k)"

text \<open>
  \<open>v.k\<close> in general: reading a property of \<open>null\<close> or \<open>undefined\<close> throws a TypeError,
  whose message is the engine's.
\<close>

datatype exn = TypeError | Error jsstring

definition get :: "jsval \<Rightarrow> jsstring \<Rightarrow> exn + jsval" where
  "get v k = (if nullish v then Inl TypeError else Inr (getprop v k))"

text \<open>\<open>m || d\<close> on strings\<close>

definition or_default :: "jsstring \<Rightarrow> jsstring \<Rightarrow> jsstring" where
  "or_default m d = (if m = [] then d else m)"

section \<open>The backend as seen by \<open>fetch\<close>\<close>

text \<open>
  What the body of a response is to its reader: \<open>res.text()\<close> or \<open>res.json()\<close> may
  reject (the stream breaks) with some message; otherwise the text either is JSON,
  given here by the value \<open>JSON.parse\<close> builds from it, or is not, given by the text
  and the message of the SyntaxError \<open>JSON.parse\<close> throws.  A JSON text is never empty.
\<close>

datatype payload =
    Unreadable jsstring
  | NotJson jsstring jsstring
  | Json jsval

text \<open>\<open>await fetch(...)\<close> rejects with an error message, or resolves to a status and a body.\<close>

datatype response =
    NetworkFailure jsstring
  | Response nat payload

text \<open>\<open>res.ok\<close>\<close>

definition ok :: "nat \<Rightarrow> bool" where
  "ok status = (200 \<le> status \<and> status \<le> 299)"

text \<open>
  What a handler does to the outside: requests, console output, callbacks.  A form body
  is given by the pairs of name and value handed to \<open>URLSearchParams\<close>; how these are
  serialised (the percent-encoding, a lone surrogate becoming U+FFFD) is not modelled.
\<close>

datatype reqbody =
    NoBody
  | FormBody "(jsstring \<times> jsstring) list"
  | JsonBody jsval

datatype effect =
    Fetch jsstring jsstring reqbody
  | ConsoleLog jsstring
  | ConsoleWarn jsstring
  | ConsoleError jsstring
  | OnSuccess

fun is_request :: "effect \<Rightarrow> bool" where
  "is_request (Fetch m u b) = True"
| "is_request e = False"

section \<open>The lead page\<close>

text \<open>
  The source holds the page \<open>app/inbox/[id]/page.tsx\<close> twice: a first version, and a
  second one written to replace it.  They differ in every handler, so both are modelled:
  \<open>fetchMessages1\<close>, \<open>loadVisitBanner\<close> and \<open>handleSend1\<close> are the first page's
  \<open>fetchMessages\<close>, \<open>loadVisitBanner\<close> and \<open>handleSend\<close>; \<open>fetchMessages2\<close>,
  \<open>fetchLatestVisit\<close> and \<open>handleSend2\<close> are the second page's \<open>fetchMessages\<close>,
  \<open>fetchLatestVisit\<close> and \<open>handleSend\<close>.

  A handler is a function from the component state, and from what the backend answers to
  each request the handler makes, to the state once the handler has settled and the
  effects it had on the way, in order.  The \<open>lid\<close> of a handler is the \<open>leadId\<close> of the
  route, \<open>api\<close> is \<open>API_URL\<close>.

  The component state of \<open>LeadPage\<close>; \<open>'l\<close> is what \<open>setLead\<close> stores: any value on the
  first page, the normalized structure or null on the second.
\<close>

record LeadData =
  leadId :: jsval
  name :: jsval
  messages :: jsval

record 'l page_state =
  lead :: 'l
  loading :: bool
  error :: "jsstring option"
  input :: jsstring
  sending :: bool
  latestVisit :: jsval
  showVisitModal :: bool

text \<open>The state a mounted page starts from (\<open>l\<close> is \<open>null\<close>).\<close>

definition initial :: "'l \<Rightarrow> 'l page_state" where
  "initial l = \<lparr>lead = l, loading = False, error = None, input = [], sending = False,
                 latestVisit = JNull, showVisitModal = False\<rparr>"

subsection \<open>fetchMessages (second page)\<close>

text \<open>The defensive normalization of the parsed payload \<open>data\<close>, for the lead \<open>lid\<close>.\<close>

definition normalized :: "jsstring \<Rightarrow> jsval \<Rightarrow> LeadData option" where
  "normalized lid data =
    (if \<not> truthy data then None
     else if isArray (getprop data (js ''messages'')) then
       Some \<lparr>leadId = nullish_or (getprop data (js ''leadId'')) (JStr lid),
             name = nullish_or (nullish_or (getprop data (js ''name'')) (getprop data (js ''leadName'')))
                      (getprop data (js ''name'')),
             messages = getprop data (js ''messages'')\<rparr>
     else if isArray data then
       Some \<lparr>leadId = JStr lid, name = JUndefined, messages = data\<rparr>
     else if getprop data (js ''messages'') = JUndefined \<and> getprop data (js ''messages'') = JNull
             \<and> opt_getprop (getprop data (js ''messages'')) (js ''length'') = JNum 0 then
       Some \<lparr>leadId = JStr lid, name = nullish_or (getprop data (js ''name'')) JUndefined,
             messages = JArr []\<rparr>
     else
       (let msgs = nullish_or (nullish_or (getprop data (js ''messages''))
                                (opt_getprop (getprop data (js ''data'')) (js ''messages'')))
                     (JArr [])
        in Some \<lparr>leadId = nullish_or (getprop data (js ''leadId'')) (JStr lid),
                 name = nullish_or (getprop data (js ''name'')) JUndefined,
                 messages = msgs\<rparr>))"

text \<open>
  The \<open>try\<close> block after \<open>setLoading(true); setError(null)\<close>: the value for \<open>setLead\<close>,
  or the message of the error thrown, with the effects up to there.
\<close>

definition fetchMessages2_try ::
  "jsstring \<Rightarrow> jsstring \<Rightarrow> response \<Rightarrow> (jsstring + LeadData option) \<times> effect list" where
  "fetchMessages2_try url lid r =
    (case r of
       NetworkFailure m \<Rightarrow> (Inl m, [Fetch (js ''GET'') url NoBody])
     | Response status p \<Rightarrow>
        (let fx = [Fetch (js ''GET'') url NoBody, ConsoleLog (js ''fetchMessages: status'')] in
         case p of
           Unreadable m \<Rightarrow> (Inl m, fx)
         | NotJson text m \<Rightarrow>
            (if text = [] then
               (Inr (normalized lid JNull),
                fx @ [ConsoleLog (js ''fetchMessages: raw response text:''),
                      ConsoleLog (js ''fetchMessages: normalized:'')])
             else
               (Inl (js ''Invalid JSON from messages endpoint''),
                fx @ [ConsoleLog (js ''fetchMessages: raw response text:''),
                      ConsoleError (js ''fetchMessages: JSON parse error'')]))
         | Json data \<Rightarrow>
            (Inr (normalized lid data),
             fx @ [ConsoleLog (js ''fetchMessages: raw response text:''),
                   ConsoleLog (js ''fetchMessages: normalized:'')])))"

definition fetchMessages2 ::
  "jsstring \<Rightarrow> jsstring \<Rightarrow> response \<Rightarrow> LeadData option page_state
     \<Rightarrow> LeadData option page_state \<times> effect list" where
  "fetchMessages2 api lid r st =
    (if lid = [] then (st, [ConsoleWarn (js ''fetchMessages: no leadId (page mounted without id)'')])
     else
       (let url = api @ js ''/api/leads/'' @ lid @ js ''/messages'';
            st1 = st\<lparr>loading := True, error := None\<rparr>
        in case fetchMessages2_try url lid r of
             (Inr n, fx) \<Rightarrow>
               (st1\<lparr>lead := n, loading := False\<rparr>,
                ConsoleLog (js ''fetchMessages: calling'') # fx)
           | (Inl m, fx) \<Rightarrow>
               (st1\<lparr>error := Some (or_default m (js ''Failed to load messages'')),
                    loading := False\<rparr>,
                ConsoleLog (js ''fetchMessages: calling'') # fx
                  @ [ConsoleError (js ''fetchMessages error:'')])))"

text \<open>The structure \<open>setLead\<close> stored, as the object it is.\<close>

definition LeadData_obj :: "LeadData \<Rightarrow> jsval" where
  "LeadData_obj n =
     JObj [(js ''leadId'', leadId n), (js ''name'', name n), (js ''messages'', messages n)]"

subsection \<open>fetchMessages (first page)\<close>

text \<open>The decimal numeral of a status code, as a template literal prints it.\<close>

fun show_nat :: "nat \<Rightarrow> jsstring" where
  "show_nat n = (if n < 10 then [of_nat (48 + n)] else show_nat (n div 10) @ [of_nat (48 + n mod 10)])"

declare show_nat.simps [simp del]

definition fetchMessages1 ::
  "jsstring \<Rightarrow> jsstring \<Rightarrow> response \<Rightarrow> jsval page_state \<Rightarrow> jsval page_state \<times> effect list" where
  "fetchMessages1 api lid r st =
    (if lid = [] then (st, [])
     else
       (let req = Fetch (js ''GET'') (api @ js ''/api/leads/'' @ lid @ js ''/messages'') NoBody;
            st1 = st\<lparr>loading := True, error := None\<rparr>;
            caught = (\<lambda>m. (st1\<lparr>error := Some (or_default m (js ''Failed to load messages'')),
                                 loading := False\<rparr>,
                            [req, ConsoleError m]))
        in case r of
             NetworkFailure m \<Rightarrow> caught m
           | Response status p \<Rightarrow>
               (if \<not> ok status then caught (js ''API error: '' @ show_nat status)
                else case p of
                       Unreadable m \<Rightarrow> caught m
                     | NotJson text m \<Rightarrow> caught m
                     | Json data \<Rightarrow> (st1\<lparr>lead := data, loading := False\<rparr>, [req]))))"

subsection \<open>The visit banner\<close>

text \<open>\<open>allVisits.filter(...)\<close> with a callback that may throw.\<close>

fun filter_exn :: "('a \<Rightarrow> exn + bool) \<Rightarrow> 'a list \<Rightarrow> exn + 'a list" where
  "filter_exn p [] = Inr []"
| "filter_exn p (x # xs) =
     (case p x of
        Inl e \<Rightarrow> Inl e
      | Inr b \<Rightarrow> (case filter_exn p xs of
                    Inl e \<Rightarrow> Inl e
                  | Inr ys \<Rightarrow> Inr (if b then x # ys else ys)))"

text \<open>The filter callback of \<open>loadVisitBanner\<close> (first page).\<close>

definition belongs1 :: "jsstring \<Rightarrow> jsval \<Rightarrow> exn + bool" where
  "belongs1 currentLeadId v =
    (case get v (js ''leadId'') of
       Inl e \<Rightarrow> Inl e
     | Inr l \<Rightarrow>
        Inr (if \<not> truthy l then False
             else case l of
                    JStr s \<Rightarrow> l = JStr currentLeadId
                  | _ \<Rightarrow> getprop l (js ''_id'') = JStr currentLeadId))"

text \<open>The filter callback of \<open>fetchLatestVisit\<close> (second page).\<close>

definition belongs2 :: "jsstring \<Rightarrow> jsval \<Rightarrow> exn + bool" where
  "belongs2 currentLeadId v =
    (case get v (js ''leadId'') of
       Inl e \<Rightarrow> Inl e
     | Inr l \<Rightarrow>
        Inr (if \<not> truthy l then False
             else case l of
                    JStr s \<Rightarrow> l = JStr currentLeadId
                  | _ \<Rightarrow> getprop l (js ''_id'') = JStr currentLeadId
                          \<or> getprop l (js ''id'') = JStr currentLeadId))"

text \<open>\<open>xs.filter(f)\<close> on any value: only an array has the method.\<close>

definition js_filter :: "(jsval \<Rightarrow> exn + bool) \<Rightarrow> jsval \<Rightarrow> exn + jsval list" where
  "js_filter f v = (case v of JArr xs \<Rightarrow> filter_exn f xs | _ \<Rightarrow> Inl TypeError)"

text \<open>\<open>(data.visits || []).filter(...)\<close>\<close>

definition visitsForLead1 :: "jsstring \<Rightarrow> jsval \<Rightarrow> exn + jsval list" where
  "visitsForLead1 currentLeadId data =
    (case get data (js ''visits'') of
       Inl e \<Rightarrow> Inl e
     | Inr vs \<Rightarrow> js_filter (belongs1 currentLeadId) (if truthy vs then vs else JArr []))"

text \<open>\<open>(data?.visits ?? []).filter(...)\<close>\<close>

definition visitsForLead2 :: "jsstring \<Rightarrow> jsval \<Rightarrow> exn + jsval list" where
  "visitsForLead2 currentLeadId data =
     js_filter (belongs2 currentLeadId) (nullish_or (opt_getprop data (js ''visits'')) (JArr []))"

text \<open>
  \<open>new Date(x).getTime()\<close> is the parameter \<open>getTime\<close>: the time value in milliseconds,
  or \<open>None\<close> for \<open>NaN\<close> (an invalid date).  The comparator
  \<open>(a, b) => new Date(b.date).getTime() - new Date(a.date).getTime()\<close>; a difference
  of two time values keeps its sign in floating point.
\<close>

definition by_date_desc :: "(jsval \<Rightarrow> int option) \<Rightarrow> jsval \<Rightarrow> jsval \<Rightarrow> int option" where
  "by_date_desc getTime a b =
    (case (getTime (getprop b (js ''date'')), getTime (getprop a (js ''date''))) of
       (Some tb, Some ta) \<Rightarrow> Some (tb - ta)
     | _ \<Rightarrow> None)"

text \<open>
  \<open>Array.prototype.sort\<close> calls the comparator on pairs of elements and reads its result
  as a sign, \<open>NaN\<close> counting as zero: \<open>a\<close> goes after \<open>b\<close> when the result on \<open>(a, b)\<close> is
  positive, before \<open>b\<close> when it is negative, and ties with \<open>b\<close> otherwise.
\<close>

definition goes_after :: "('a \<Rightarrow> 'a \<Rightarrow> int option) \<Rightarrow> 'a \<Rightarrow> 'a \<Rightarrow> bool" where
  "goes_after cmp a b = (case cmp a b of Some d \<Rightarrow> 0 < d | None \<Rightarrow> False)"

definition goes_before :: "('a \<Rightarrow> 'a \<Rightarrow> int option) \<Rightarrow> 'a \<Rightarrow> 'a \<Rightarrow> bool" where
  "goes_before cmp a b = (case cmp a b of Some d \<Rightarrow> d < 0 | None \<Rightarrow> False)"

definition ties :: "('a \<Rightarrow> 'a \<Rightarrow> int option) \<Rightarrow> 'a \<Rightarrow> 'a \<Rightarrow> bool" where
  "ties cmp a b = (case cmp a b of Some d \<Rightarrow> d = 0 | None \<Rightarrow> True)"

text \<open>
  The language's condition for the order to be determined: the comparator is a
  consistent comparator for the elements sorted.
\<close>

definition consistent :: "('a \<Rightarrow> 'a \<Rightarrow> int option) \<Rightarrow> 'a list \<Rightarrow> bool" where
  "consistent cmp xs =
    (\<forall>a\<in>set xs. \<forall>b\<in>set xs. \<forall>c\<in>set xs.
        ties cmp a a
      \<and> (ties cmp a b \<longrightarrow> ties cmp b a)
      \<and> (ties cmp a b \<and> ties cmp b c \<longrightarrow> ties cmp a c)
      \<and> (goes_before cmp a b \<and> goes_before cmp b c \<longrightarrow> goes_before cmp a c)
      \<and> (goes_after cmp a b \<and> goes_after cmp b c \<longrightarrow> goes_after cmp a c))"

text \<open>
  The sort is stable.  Under a consistent comparator its result is the one stable
  sorted order, which this insertion sort computes.
\<close>

fun insert_cmp :: "('a \<Rightarrow> 'a \<Rightarrow> int option) \<Rightarrow> 'a \<Rightarrow> 'a list \<Rightarrow> 'a list" where
  "insert_cmp cmp x [] = [x]"
| "insert_cmp cmp x (y # ys) =
     (if goes_after cmp x y then y # insert_cmp cmp x ys else x # y # ys)"

definition sort_cmp :: "('a \<Rightarrow> 'a \<Rightarrow> int option) \<Rightarrow> 'a list \<Rightarrow> 'a list" where
  "sort_cmp cmp xs = foldr (insert_cmp cmp) xs []"

text \<open>
  Under any other comparator the order is implementation-defined: it is whatever the
  engine at hand makes of it, the parameter \<open>engine\<close> (some rearrangement of the list).
\<close>

definition Array_sort ::
  "(('a \<Rightarrow> 'a \<Rightarrow> int option) \<Rightarrow> 'a list \<Rightarrow> 'a list) \<Rightarrow> ('a \<Rightarrow> 'a \<Rightarrow> int option) \<Rightarrow> 'a list
     \<Rightarrow> 'a list" where
  "Array_sort engine cmp xs = (if consistent cmp xs then sort_cmp cmp xs else engine cmp xs)"

text \<open>\<open>xs[0]\<close>\<close>

definition first :: "jsval list \<Rightarrow> jsval" where
  "first xs = (case xs of [] \<Rightarrow> JUndefined | x # rest \<Rightarrow> x)"

definition loadVisitBanner ::
  "((jsval \<Rightarrow> jsval \<Rightarrow> int option) \<Rightarrow> jsval list \<Rightarrow> jsval list)
     \<Rightarrow> (jsval \<Rightarrow> int option) \<Rightarrow> jsstring \<Rightarrow> jsstring \<Rightarrow> response \<Rightarrow> 'l page_state
     \<Rightarrow> 'l page_state \<times> effect list" where
  "loadVisitBanner engine getTime api currentLeadId r st =
    (let req = Fetch (js ''GET'') (api @ js ''/api/visits'') NoBody;
         caught = (st, [req, ConsoleError (js ''loadVisitBanner error:'')])
     in case r of
          NetworkFailure m \<Rightarrow> caught
        | Response status p \<Rightarrow>
            (if \<not> ok status then (st, [req, ConsoleError (js ''Failed to load visits'')])
             else case p of
                    Unreadable m \<Rightarrow> caught
                  | NotJson text m \<Rightarrow> caught
                  | Json data \<Rightarrow>
                      (case visitsForLead1 currentLeadId data of
                         Inl e \<Rightarrow> caught
                       | Inr visitsForLead \<Rightarrow>
                           (if length visitsForLead = 0 then (st\<lparr>latestVisit := JNull\<rparr>, [req])
                            else (st\<lparr>latestVisit :=
                                        first (Array_sort engine (by_date_desc getTime) visitsForLead)\<rparr>,
                                  [req])))))"

definition fetchLatestVisit ::
  "((jsval \<Rightarrow> jsval \<Rightarrow> int option) \<Rightarrow> jsval list \<Rightarrow> jsval list)
     \<Rightarrow> (jsval \<Rightarrow> int option) \<Rightarrow> jsstring \<Rightarrow> jsstring \<Rightarrow> response \<Rightarrow> 'l page_state
     \<Rightarrow> 'l page_state \<times> effect list" where
  "fetchLatestVisit engine getTime api currentLeadId r st =
    (if currentLeadId = [] then (st, [])
     else
       (let fx = [ConsoleLog (js ''fetchLatestVisit: calling''),
                  Fetch (js ''GET'') (api @ js ''/api/visits'') NoBody];
            caught = (st, fx @ [ConsoleError (js ''fetchLatestVisit error:'')])
        in case r of
             NetworkFailure m \<Rightarrow> caught
           | Response status p \<Rightarrow>
               (if \<not> ok status then
                  (st, fx @ [ConsoleError (js ''fetchLatestVisit: failed status'')])
                else case p of
                       Unreadable m \<Rightarrow> caught
                     | NotJson text m \<Rightarrow> caught
                     | Json data \<Rightarrow>
                         (case visitsForLead2 currentLeadId data of
                            Inl e \<Rightarrow> caught
                          | Inr visitsForLead \<Rightarrow>
                              (if length visitsForLead = 0 then
                                 (st\<lparr>latestVisit := JNull\<rparr>,
                                  fx @ [ConsoleLog (js ''fetchLatestVisit: 0 visits for lead'')])
                               else
                                 (st\<lparr>latestVisit :=
                                       first (Array_sort engine (by_date_desc getTime) visitsForLead)\<rparr>,
                                  fx @ [ConsoleLog (js ''fetchLatestVisit: newest for lead'')]))))))"

subsection \<open>handleSend\<close>

text \<open>
  \<open>String.prototype.trim\<close> strips white space and line terminators from both ends:
  TAB, LF, VT, FF, CR, SP, NBSP, the other space separators, LS, PS and the BOM.
\<close>

definition is_space :: "16 word \<Rightarrow> bool" where
  "is_space c =
    (c \<in> set [0x9, 0xA, 0xB, 0xC, 0xD, 0x20, 0xA0, 0x1680, 0x2028, 0x2029, 0x202F, 0x205F,
               0x3000, 0xFEFF]
     \<or> (0x2000 \<le> c \<and> c \<le> 0x200A))"

definition trim :: "jsstring \<Rightarrow> jsstring" where
  "trim s = rev (dropWhile is_space (rev (dropWhile is_space s)))"

text \<open>
  First page.  \<open>post\<close> is the backend's answer to the reply request, \<open>refetch\<close> its
  answer to the request of \<open>fetchMessages\<close>, if one is made.
\<close>

definition handleSend1 ::
  "jsstring \<Rightarrow> jsstring \<Rightarrow> response \<Rightarrow> response \<Rightarrow> jsval page_state
     \<Rightarrow> jsval page_state \<times> effect list" where
  "handleSend1 api lid post refetch st =
    (let text = trim (input st) in
     if text = [] \<or> lid = [] then (st, [])
     else
       (let st1 = st\<lparr>sending := True\<rparr>;
            req = Fetch (js ''POST'') (api @ js ''/leads/'' @ lid @ js ''/reply'')
                    (FormBody [(js ''message'', text)])
        in case post of
             NetworkFailure m \<Rightarrow>
               (st1\<lparr>sending := False\<rparr>, [req, ConsoleError (js ''Send reply error:'')])
           | Response status p \<Rightarrow>
               (if \<not> ok status then
                  (st1\<lparr>sending := False\<rparr>, [req, ConsoleError (js ''Send reply failed'')])
                else
                  (case fetchMessages1 api lid refetch (st1\<lparr>input := []\<rparr>) of
                     (st2, fx) \<Rightarrow> (st2\<lparr>sending := False\<rparr>, req # fx)))))"

text \<open>Second page.\<close>

definition handleSend2 ::
  "jsstring \<Rightarrow> jsstring \<Rightarrow> response \<Rightarrow> response \<Rightarrow> LeadData option page_state
     \<Rightarrow> LeadData option page_state \<times> effect list" where
  "handleSend2 api lid post refetch st =
    (let text = trim (input st) in
     if text = [] \<or> lid = [] then (st, [])
     else
       (let st1 = st\<lparr>sending := True\<rparr>;
            fx = [ConsoleLog (js ''handleSend: POST to''),
                  Fetch (js ''POST'') (api @ js ''/api/leads/'' @ lid @ js ''/reply'')
                    (FormBody [(js ''message'', text)])];
            caught = (\<lambda>m fx'. (st1\<lparr>error := Some (or_default m (js ''Send failed'')),
                                     sending := False\<rparr>,
                                fx' @ [ConsoleError (js ''handleSend error:'')]))
        in case post of
             NetworkFailure m \<Rightarrow> caught m fx
           | Response status p \<Rightarrow>
               (case p of
                  Unreadable m \<Rightarrow> caught m (fx @ [ConsoleLog (js ''handleSend: status'')])
                | _ \<Rightarrow>
                   (let fx2 = fx @ [ConsoleLog (js ''handleSend: status''),
                                    ConsoleLog (js ''handleSend: raw response:'')]
                    in if \<not> ok status then
                         (st1\<lparr>error := Some (js ''Send failed: '' @ show_nat status),
                              sending := False\<rparr>, fx2)
                       else
                         (case fetchMessages2 api lid refetch (st1\<lparr>input := []\<rparr>) of
                            (st2, fx3) \<Rightarrow> (st2\<lparr>sending := False\<rparr>, fx2 @ fx3))))))"

section \<open>The visit booking modal\<close>

record modal_state =
  date :: jsstring
  timeSlot :: jsstring
  familyComing :: bool
  pickupRequired :: bool
  notes_m :: jsstring
  loading_m :: bool
  error_m :: "jsstring option"

text \<open>
  The fields with suffix \<open>_m\<close> are the modal's \<open>notes\<close>, \<open>loading\<close> and \<open>error\<close>.
  \<open>new Error(x)\<close> takes as message the string \<open>x\<close>, or the language's conversion
  \<open>ToString\<close> of any other value, a parameter.
\<close>

definition Error_of :: "(jsval \<Rightarrow> jsstring) \<Rightarrow> jsval \<Rightarrow> exn" where
  "Error_of ToString x = (case x of JStr s \<Rightarrow> Error s | _ \<Rightarrow> Error (ToString x))"

text \<open>\<open>err.message\<close>; the message of the engine's TypeError is the parameter \<open>te\<close>.\<close>

fun message :: "jsstring \<Rightarrow> exn \<Rightarrow> jsstring" where
  "message te TypeError = te"
| "message te (Error m) = m"

text \<open>
  \<open>throw new Error(data.error || `Booking failed (${res.status})`)\<close>: what is thrown,
  the TypeError of reading \<open>data.error\<close> included.
\<close>

definition booking_failure :: "(jsval \<Rightarrow> jsstring) \<Rightarrow> nat \<Rightarrow> jsval \<Rightarrow> exn" where
  "booking_failure ToString status data =
    (case get data (js ''error'') of
       Inl e \<Rightarrow> e
     | Inr err \<Rightarrow>
        (if truthy err then Error_of ToString err
         else Error (js ''Booking failed ('' @ show_nat status @ js '')'')))"

text \<open>
  \<open>handleSubmit\<close>.  \<open>new Date(date).toISOString()\<close> is the parameter \<open>toISOString\<close>:
  the ISO string, or the message of the RangeError for an invalid date.
\<close>

definition handleSubmit ::
  "jsstring \<Rightarrow> (jsval \<Rightarrow> jsstring) \<Rightarrow> (jsstring \<Rightarrow> jsstring + jsstring) \<Rightarrow> jsstring \<Rightarrow> jsstring
     \<Rightarrow> response \<Rightarrow> modal_state \<Rightarrow> modal_state \<times> effect list" where
  "handleSubmit te ToString toISOString api lid r st =
    (let st0 = st\<lparr>error_m := None\<rparr> in
     if date st = [] \<or> timeSlot st = [] then
       (st0\<lparr>error_m := Some (js ''Please pick a date and time slot.'')\<rparr>, [])
     else
       (let st1 = st0\<lparr>loading_m := True\<rparr>;
            caught = (\<lambda>e fx. (st1\<lparr>error_m := Some (or_default (message te e) (js ''Failed to book visit'')),
                                   loading_m := False\<rparr>,
                              fx @ [ConsoleError (js ''Visit booking error:'')]))
        in case toISOString (date st) of
             Inl m \<Rightarrow> caught (Error m) []
           | Inr isoDate \<Rightarrow>
              (let req = Fetch (js ''POST'') (api @ js ''/api/visits/'' @ lid @ js ''/book'')
                           (JsonBody (JObj [(js ''date'', JStr isoDate),
                                            (js ''timeSlot'', JStr (timeSlot st)),
                                            (js ''familyComing'', JBool (familyComing st)),
                                            (js ''pickupRequired'', JBool (pickupRequired st)),
                                            (js ''notes'', JStr (notes_m st))]))
               in case r of
                    NetworkFailure m \<Rightarrow> caught (Error m) [req]
                  | Response status p \<Rightarrow>
                     (let data = (case p of Json v \<Rightarrow> v | _ \<Rightarrow> JObj []) in
                      if \<not> ok status then caught (booking_failure ToString status data) [req]
                      else case get data (js ''ok'') of
                             Inl e \<Rightarrow> caught e [req]
                           | Inr okv \<Rightarrow>
                              (if \<not> truthy okv then
                                 caught (booking_failure ToString status data) [req]
                               else (st1\<lparr>loading_m := False\<rparr>, [req, OnSuccess]))))))"

section \<open>The insights tab\<close>

text \<open>
  A metric is a number, an IEEE 754 binary64 value: \<open>NaN\<close>, an infinity, a zero of either
  sign (\<open>Fin 0\<close> is \<open>+0\<close>), or a finite value other than zero.  The percentages below
  only compare a field with \<open>0\<close> and divide by it, which goes through \<open>ToNumber\<close>, so that
  a field that is missing (it reads as \<open>undefined\<close>) is \<open>NaN\<close> to them.
\<close>

datatype jsnum = NaN | PosInf | NegInf | NegZero | Fin rat

record Metrics =
  totalLeads :: jsnum
  hotLeads :: jsnum
  warmLeads :: jsnum
  coldLeads :: jsnum
  fakeLeads :: jsnum
  convertedLeads :: jsnum
  conversionRate :: jsnum
  followupsSent :: jsnum
  followupsScheduled :: jsnum
  whatsappIn :: jsnum
  whatsappOutAI :: jsnum
  stageChanges :: jsnum

text \<open>\<open>x > 0\<close>: false of \<open>NaN\<close> and of both zeros.\<close>

fun gt0 :: "jsnum \<Rightarrow> bool" where
  "gt0 PosInf = True"
| "gt0 (Fin q) = (0 < q)"
| "gt0 x = False"

text \<open>The sign bit is clear; infinite; a zero; the exact value of a finite number.\<close>

fun positive :: "jsnum \<Rightarrow> bool" where
  "positive NegInf = False"
| "positive NegZero = False"
| "positive (Fin q) = (0 \<le> q)"
| "positive x = True"

fun is_inf :: "jsnum \<Rightarrow> bool" where
  "is_inf PosInf = True"
| "is_inf NegInf = True"
| "is_inf x = False"

fun is_zero :: "jsnum \<Rightarrow> bool" where
  "is_zero NegZero = True"
| "is_zero (Fin q) = (q = 0)"
| "is_zero x = False"

fun exact :: "jsnum \<Rightarrow> rat" where
  "exact (Fin q) = q"
| "exact x = 0"

definition inf_of :: "bool \<Rightarrow> jsnum" where
  "inf_of nonneg = (if nonneg then PosInf else NegInf)"

definition zero_of :: "bool \<Rightarrow> jsnum" where
  "zero_of nonneg = (if nonneg then Fin 0 else NegZero)"

text \<open>
  An operation yields its exact result rounded to 53 significant bits, ties to even:
  \<open>fl\<close>, of an exact result other than zero.  \<open>ilog2 x\<close> is the exponent of the leading
  bit of a positive \<open>x\<close>; below \<open>2^-1022\<close> the numbers are subnormal, spaced \<open>2^-1074\<close>
  apart, and a result that rounds to nothing is a zero; a result that rounds to \<open>2^1024\<close>
  or more is an infinity.
\<close>

definition ilog2 :: "rat \<Rightarrow> int" where
  "ilog2 x =
    (case quotient_of x of
       (p, q) \<Rightarrow> (let k = bitlen p - bitlen q in if 2 powi k \<le> x then k else k - 1))"

definition ties_even :: "rat \<Rightarrow> int" where
  "ties_even x =
    (let f = \<lfloor>x\<rfloor>; d = x - of_int f
     in if d < 1 / 2 then f else if 1 / 2 < d then f + 1 else if even f then f else f + 1)"

definition fl :: "rat \<Rightarrow> jsnum" where
  "fl x =
    (if x = 0 then Fin 0
     else (let e = max (ilog2 \<bar>x\<bar>) (- 1022);
               u = 2 powi (e - 52);
               n = ties_even (\<bar>x\<bar> / u)
           in if 1024 \<le> e \<or> (e = 1023 \<and> n = 2 ^ 53) then inf_of (0 < x)
              else if n = 0 then zero_of (0 < x)
              else Fin (sgn x * of_int n * u)))"

text \<open>\<open>a / b\<close> and \<open>a * b\<close>.\<close>

definition ndiv :: "jsnum \<Rightarrow> jsnum \<Rightarrow> jsnum" where
  "ndiv a b =
    (if a = NaN \<or> b = NaN then NaN
     else if is_inf a then (if is_inf b then NaN else inf_of (positive a = positive b))
     else if is_inf b then zero_of (positive a = positive b)
     else if is_zero b then (if is_zero a then NaN else inf_of (positive a = positive b))
     else if is_zero a then zero_of (positive a = positive b)
     else fl (exact a / exact b))"

definition nmul :: "jsnum \<Rightarrow> jsnum \<Rightarrow> jsnum" where
  "nmul a b =
    (if a = NaN \<or> b = NaN then NaN
     else if is_inf a \<or> is_inf b then
            (if is_zero a \<or> is_zero b then NaN else inf_of (positive a = positive b))
     else if is_zero a \<or> is_zero b then zero_of (positive a = positive b)
     else fl (exact a * exact b))"

text \<open>
  \<open>Math.round\<close>: the nearest integer, a half going up; \<open>-0\<close> for what lies from \<open>-0.5\<close>
  up to \<open>-0\<close>; \<open>NaN\<close> and the infinities are left as they are.
\<close>

fun Math_round :: "jsnum \<Rightarrow> jsnum" where
  "Math_round (Fin q) = (let n = \<lfloor>q + 1 / 2\<rfloor> in if n = 0 \<and> q < 0 then NegZero else Fin (of_int n))"
| "Math_round x = x"

text \<open>
  A number in a template literal is printed by \<open>Number::toString\<close>.  An integer below
  \<open>2^53\<close> in magnitude is printed digit by digit; any other finite number by the
  shortest digits that read back as it, which is left to the parameter \<open>big\<close>.
\<close>

definition show_int :: "int \<Rightarrow> jsstring" where
  "show_int i = (if i < 0 then js ''-'' @ show_nat (nat (- i)) else show_nat (nat i))"

fun Number_toString :: "(rat \<Rightarrow> jsstring) \<Rightarrow> jsnum \<Rightarrow> jsstring" where
  "Number_toString big NaN = js ''NaN''"
| "Number_toString big PosInf = js ''Infinity''"
| "Number_toString big NegInf = js ''-Infinity''"
| "Number_toString big NegZero = js ''0''"
| "Number_toString big (Fin q) =
     (if of_int \<lfloor>q\<rfloor> = q \<and> \<bar>q\<bar> < 2 ^ 53 then show_int \<lfloor>q\<rfloor> else big q)"

definition hotShare :: "(rat \<Rightarrow> jsstring) \<Rightarrow> Metrics \<Rightarrow> jsstring" where
  "hotShare big metrics =
    (if gt0 (totalLeads metrics) then
       Number_toString big (Math_round
         (nmul (ndiv (hotLeads metrics) (totalLeads metrics)) (Fin 100))) @ js ''%''
     else js ''0%'')"

definition fakeRate :: "(rat \<Rightarrow> jsstring) \<Rightarrow> Metrics \<Rightarrow> jsstring" where
  "fakeRate big metrics =
    (if gt0 (totalLeads metrics) then
       Number_toString big (Math_round
         (nmul (ndiv (fakeLeads metrics) (totalLeads metrics)) (Fin 100))) @ js ''%''
     else js ''0%'')"

definition aiReplyCoverage :: "(rat \<Rightarrow> jsstring) \<Rightarrow> Metrics \<Rightarrow> jsstring" where
  "aiReplyCoverage big metrics =
    (if gt0 (whatsappIn metrics) then
       Number_toString big (Math_round
         (nmul (ndiv (whatsappOutAI metrics) (whatsappIn metrics)) (Fin 100))) @ js ''%''
     else js ''0%'')"

section \<open>Vocabulary of the properties\<close>

text \<open>A visit the filter callback of the first, of the second page accepts.\<close>

definition matches1 :: "jsstring \<Rightarrow> jsval \<Rightarrow> bool" where
  "matches1 currentLeadId v = (belongs1 currentLeadId v = Inr True)"

definition matches2 :: "jsstring \<Rightarrow> jsval \<Rightarrow> bool" where
  "matches2 currentLeadId v = (belongs2 currentLeadId v = Inr True)"

text \<open>
  What the resolver is to select among the candidates: no visit when there is none,
  otherwise a candidate whose scheduled date is maximal.
\<close>

definition latest_among :: "(jsval \<Rightarrow> int option) \<Rightarrow> jsval list \<Rightarrow> jsval \<Rightarrow> bool" where
  "latest_among getTime candidates v =
    (if candidates = [] then v = JNull
     else v \<in> set candidates
        \<and> (\<exists>t. getTime (getprop v (js ''date'')) = Some t
             \<and> (\<forall>w\<in>set candidates.
                   \<exists>tw. getTime (getprop w (js ''date'')) = Some tw \<and> tw \<le> t)))"

text \<open>A body that \<open>res.text()\<close> can read; a body that is JSON.\<close>

definition readable :: "payload \<Rightarrow> bool" where
  "readable p = (case p of Unreadable m \<Rightarrow> False | _ \<Rightarrow> True)"

definition is_json :: "payload \<Rightarrow> bool" where
  "is_json p = (case p of Json v \<Rightarrow> True | _ \<Rightarrow> False)"

text \<open>The request \<open>handleSubmit\<close> sends for the form \<open>st\<close>.\<close>

definition book_request :: "jsstring \<Rightarrow> jsstring \<Rightarrow> jsstring \<Rightarrow> modal_state \<Rightarrow> effect" where
  "book_request api lid isoDate st =
     Fetch (js ''POST'') (api @ js ''/api/visits/'' @ lid @ js ''/book'')
       (JsonBody (JObj [(js ''date'', JStr isoDate),
                        (js ''timeSlot'', JStr (timeSlot st)),
                        (js ''familyComing'', JBool (familyComing st)),
                        (js ''pickupRequired'', JBool (pickupRequired st)),
                        (js ''notes'', JStr (notes_m st))]))"

text \<open>The code units of the digits 0 to 9.\<close>

definition is_digit :: "16 word \<Rightarrow> bool" where
  "is_digit c = (48 \<le> c \<and> c \<le> 57)"

text \<open>A count: a non-negative integer below \<open>2^53\<close>, which a number holds exactly.\<close>

fun count :: "jsnum \<Rightarrow> bool" where
  "count (Fin q) = (of_int \<lfloor>q\<rfloor> = q \<and> 0 \<le> q \<and> q < 2 ^ 53)"
| "count x = False"

text \<open>
  \<open>k\<close> is the percentage of \<open>a\<close> in \<open>b\<close>: the nearest integer to a hundred times the
  quotient, up to the rounding error of the division and the multiplication.
\<close>

definition nearest_percent :: "jsnum \<Rightarrow> jsnum \<Rightarrow> nat \<Rightarrow> bool" where
  "nearest_percent a b k =
    (\<bar>of_nat k - 100 * exact a / exact b\<bar> \<le> 1 / 2 + 100 * exact a / exact b / 2 ^ 51)"

text \<open>
  The string \<open>s\<close> shows the percentage of \<open>a\<close> in \<open>b\<close>: \<open>0%\<close> when \<open>b\<close> is zero, otherwise
  the numeral of the percentage followed by \<open>%\<close>.
\<close>

definition shown_percentage :: "(rat \<Rightarrow> jsstring) \<Rightarrow> jsnum \<Rightarrow> jsnum \<Rightarrow> jsstring \<Rightarrow> bool" where
  "shown_percentage big a b s =
    (if is_zero b then s = js ''0%''
     else (\<exists>k. nearest_percent a b k
              \<and> s = (if k < 2 ^ 53 then show_nat k else big (of_nat k)) @ js ''%''))"

text \<open>A decimal numeral followed by \<open>%\<close>.\<close>

definition percent_numeral :: "jsstring \<Rightarrow> bool" where
  "percent_numeral s = (s \<noteq> [] \<and> last s = 37 \<and> butlast s \<noteq> [] \<and> list_all is_digit (butlast s))"

section \<open>Example inputs\<close>

definition api0 :: jsstring where
  "api0 = js ''http://localhost:1400''"

definition hello :: jsval where
  "hello = JObj [(js ''from'', JStr (js ''lead'')), (js ''text'', JStr (js ''hi''))]"

definition conversation :: LeadData where
  "conversation = \<lparr>leadId = JStr (js ''L1''), name = JStr (js ''Asha''), messages = JArr [hello]\<rparr>"

definition visit_jan1 :: jsval where
  "visit_jan1 = JObj [(js ''_id'', JStr (js ''v1'')), (js ''date'', JStr (js ''2024-01-01'')),
                      (js ''timeSlot'', JStr (js ''morning'')), (js ''leadId'', JStr (js ''L1''))]"

definition visit_jan3 :: jsval where
  "visit_jan3 = JObj [(js ''_id'', JStr (js ''v2'')), (js ''date'', JStr (js ''2024-01-03'')),
                      (js ''timeSlot'', JStr (js ''evening'')),
                      (js ''leadId'', JObj [(js ''_id'', JStr (js ''L1'')),
                                            (js ''name'', JStr (js ''Asha''))])]"

definition visit_other :: jsval where
  "visit_other = JObj [(js ''_id'', JStr (js ''v3'')), (js ''date'', JStr (js ''2024-01-05'')),
                       (js ''timeSlot'', JStr (js ''morning'')), (js ''leadId'', JStr (js ''L2''))]"

definition visit_orphan :: jsval where
  "visit_orphan = JObj [(js ''_id'', JStr (js ''v4'')), (js ''date'', JStr (js ''2024-01-07'')),
                        (js ''timeSlot'', JStr (js ''morning''))]"

definition visits_payload :: jsval where
  "visits_payload = JObj [(js ''visits'', JArr [visit_jan1, visit_jan3, visit_other, visit_orphan])]"

text \<open>A visit of the lead \<open>L1\<close> whose date is no date, and a collection that starts with it.\<close>

definition visit_garbled :: jsval where
  "visit_garbled = JObj [(js ''_id'', JStr (js ''v5'')), (js ''date'', JStr (js ''not a date'')),
                         (js ''timeSlot'', JStr (js ''morning'')), (js ''leadId'', JStr (js ''L1''))]"

definition visits_garbled :: jsval where
  "visits_garbled = JObj [(js ''visits'', JArr [visit_garbled, visit_jan3])]"

text \<open>The time values of the four dates (midnight UTC), and \<open>NaN\<close> elsewhere.\<close>

definition getTime0 :: "jsval \<Rightarrow> int option" where
  "getTime0 v =
    (if v = JStr (js ''2024-01-01'') then Some 1704067200000
     else if v = JStr (js ''2024-01-03'') then Some 1704240000000
     else if v = JStr (js ''2024-01-05'') then Some 1704412800000
     else if v = JStr (js ''2024-01-07'') then Some 1704585600000
     else None)"

definition metrics0 :: Metrics where
  "metrics0 = \<lparr>totalLeads = Fin 200, hotLeads = Fin 29, warmLeads = Fin 100, coldLeads = Fin 70,
               fakeLeads = Fin 1, convertedLeads = Fin 3, conversionRate = Fin (3 / 2),
               followupsSent = Fin 5, followupsScheduled = Fin 6, whatsappIn = Fin 0,
               whatsappOutAI = Fin 0, stageChanges = Fin 2\<rparr>"

text \<open>
  Metrics that are not counts: the hot leads missing; both the hot leads and the total
  too large for a number (\<open>1e999\<close> in the JSON); a negative total.
\<close>

definition metrics_missing :: Metrics where
  "metrics_missing = metrics0\<lparr>hotLeads := NaN\<rparr>"

definition metrics_huge :: Metrics where
  "metrics_huge = metrics0\<lparr>hotLeads := PosInf, totalLeads := PosInf\<rparr>"

definition metrics_negative :: Metrics where
  "metrics_negative = metrics0\<lparr>totalLeads := Fin (- 5)\<rparr>"

text \<open>No lead yet, and nine replies of the assistant to twelve messages in.\<close>

definition metrics_empty :: Metrics where
  "metrics_empty = metrics0\<lparr>totalLeads := Fin 0, hotLeads := Fin 0, fakeLeads := Fin 0,
                             whatsappIn := Fin 12, whatsappOutAI := Fin 9\<rparr>"

text \<open>An engine's printing of the other numbers is of no account in the examples.\<close>

definition big0 :: "rat \<Rightarrow> jsstring" where
  "big0 q = js ''1e+21''"

definition modal0 :: modal_state where
  "modal0 = \<lparr>date = js ''2024-01-03T10:00'', timeSlot = js ''morning'', familyComing = False,
             pickupRequired = True, notes_m = [], loading_m = False, error_m = None\<rparr>"

text \<open>The modal as it opens: no date picked yet.\<close>

definition modal_blank :: modal_state where
  "modal_blank = \<lparr>date = [], timeSlot = js ''morning'', familyComing = False,
                  pickupRequired = False, notes_m = [], loading_m = False, error_m = None\<rparr>"

text \<open>In a browser whose time zone is UTC.\<close>

definition toISOString0 :: "jsstring \<Rightarrow> jsstring + jsstring" where
  "toISOString0 d = Inr (d @ js '':00.000Z'')"

definition ToString0 :: "jsval \<Rightarrow> jsstring" where
  "ToString0 v = js ''[object Object]''"

section \<open>The conversation: \<open>fetchMessages\<close> of the second page\<close>

lemma keys_not_length:
  "js ''leadId'' \<noteq> js ''length''" "js ''messages'' \<noteq> js ''length''"
  "js ''name'' \<noteq> js ''length''" "js ''leadName'' \<noteq> js ''length''"
  "js ''data'' \<noteq> js ''length''"
  by (simp_all add: js_def)

lemma getprop_LeadData_obj:
  "getprop (LeadData_obj n) (js ''leadId'') = leadId n"
  "getprop (LeadData_obj n) (js ''name'') = name n"
  "getprop (LeadData_obj n) (js ''messages'') = messages n"
  "getprop (LeadData_obj n) (js ''leadName'') = JUndefined"
  "getprop (LeadData_obj n) (js ''data'') = JUndefined"
  by (simp_all add: LeadData_obj_def js_def)

lemma LeadData_obj_shape: "truthy (LeadData_obj n)" "\<not> isArray (LeadData_obj n)"
  by (simp_all add: LeadData_obj_def)

lemma nullish_or_cases:
  "nullish_or a b = (case a of JUndefined \<Rightarrow> b | JNull \<Rightarrow> b | v \<Rightarrow> v)"
  by (cases a) (simp_all add: nullish_or_def)

lemma or_default_not_Nil: "d \<noteq> [] \<Longrightarrow> or_default m d \<noteq> []"
  by (simp add: or_default_def)

lemma literal_not_Nil:
  "js ''Failed to load messages'' \<noteq> []" "js ''Invalid JSON from messages endpoint'' \<noteq> []"
  "js ''Booking failed ('' \<noteq> []" "js ''L1'' \<noteq> []"
  by (simp_all add: js_def)

lemma normalized_leadId:
  "truthy data \<Longrightarrow>
     \<exists>n. normalized lid data = Some n
        \<and> leadId n = nullish_or (getprop data (js ''leadId'')) (JStr lid)"
  by (cases data) (auto simp: normalized_def Let_def nullish_or_def keys_not_length)

lemma normalized_falsy: "\<not> truthy data \<Longrightarrow> normalized lid data = None"
  by (simp add: normalized_def)

lemma normalized_no_messages:
  "truthy data \<Longrightarrow> \<not> isArray data \<Longrightarrow> nullish (getprop data (js ''messages'')) \<Longrightarrow>
     nullish (opt_getprop (getprop data (js ''data'')) (js ''messages'')) \<Longrightarrow>
     \<exists>n. normalized lid data = Some n \<and> messages n = JArr []"
  by (cases "getprop data (js ''messages'')";
      simp add: normalized_def Let_def nullish_or_def)

lemma normalized_again:
  "Option.bind (normalized lid data) (\<lambda>n. normalized lid (LeadData_obj n))
     = normalized lid data"
  unfolding normalized_def Let_def
  by (auto simp: getprop_LeadData_obj LeadData_obj_shape nullish_or_def opt_getprop_def
           split: if_splits)

lemma fetchMessages2_json:
  "lid \<noteq> [] \<Longrightarrow>
     fst (fetchMessages2 api lid (Response status (Json data)) st)
       = st\<lparr>lead := normalized lid data, loading := False, error := None\<rparr>"
  by (simp add: fetchMessages2_def fetchMessages2_try_def Let_def)

lemma fetchMessages2_not_json:
  "lid \<noteq> [] \<Longrightarrow> text \<noteq> [] \<Longrightarrow>
     fst (fetchMessages2 api lid (Response status (NotJson text m)) st)
       = st\<lparr>loading := False, error := Some (js ''Invalid JSON from messages endpoint'')\<rparr>"
  by (simp add: fetchMessages2_def fetchMessages2_try_def Let_def or_default_def literal_not_Nil)

lemma fetchMessages2_empty:
  "lid \<noteq> [] \<Longrightarrow>
     fst (fetchMessages2 api lid (Response status (NotJson [] m)) st)
       = st\<lparr>lead := None, loading := False, error := None\<rparr>"
  by (simp add: fetchMessages2_def fetchMessages2_try_def Let_def normalized_def)

lemma fetchMessages2_rejected:
  "lid \<noteq> [] \<Longrightarrow>
     fst (fetchMessages2 api lid (NetworkFailure m) st)
       = st\<lparr>loading := False, error := Some (or_default m (js ''Failed to load messages''))\<rparr>"
  "lid \<noteq> [] \<Longrightarrow>
     fst (fetchMessages2 api lid (Response status (Unreadable m)) st)
       = st\<lparr>loading := False, error := Some (or_default m (js ''Failed to load messages''))\<rparr>"
  by (simp_all add: fetchMessages2_def fetchMessages2_try_def Let_def)

lemma fetchMessages2_settles:
  assumes "lid \<noteq> []"
  shows "(\<exists>m. m \<noteq> [] \<and> fst (fetchMessages2 api lid r st) = st\<lparr>loading := False, error := Some m\<rparr>)
       \<or> (\<exists>n. fst (fetchMessages2 api lid r st) = st\<lparr>lead := n, loading := False, error := None\<rparr>)"
proof -
  have failed: ?thesis
    if "fst (fetchMessages2 api lid r st) = st\<lparr>loading := False, error := Some m\<rparr>" "m \<noteq> []" for m
    using that by blast
  have stored: ?thesis
    if "fst (fetchMessages2 api lid r st) = st\<lparr>lead := n, loading := False, error := None\<rparr>" for n
    using that by blast
  show ?thesis
  proof (cases r)
    case (NetworkFailure m)
    show ?thesis
      by (rule failed[of "or_default m (js ''Failed to load messages'')"])
         (simp_all add: NetworkFailure assms fetchMessages2_rejected or_default_not_Nil literal_not_Nil)
  next
    case (Response status p)
    show ?thesis
    proof (cases p)
      case (Unreadable m)
      show ?thesis
        by (rule failed[of "or_default m (js ''Failed to load messages'')"])
           (simp_all add: Response Unreadable assms fetchMessages2_rejected or_default_not_Nil
              literal_not_Nil)
    next
      case (NotJson raw m)
      show ?thesis
      proof (cases "raw = []")
        case True
        show ?thesis
          by (rule stored[of None]) (simp add: Response NotJson True assms fetchMessages2_empty)
      next
        case False
        show ?thesis
          by (rule failed[of "js ''Invalid JSON from messages endpoint''"])
             (simp_all add: Response NotJson False assms fetchMessages2_not_json literal_not_Nil)
      qed
    next
      case (Json data)
      show ?thesis
        by (rule stored[of "normalized lid data"]) (simp add: Response Json assms fetchMessages2_json)
    qed
  qed
qed

lemma fetchMessages2_again:
  "fetchMessages2 api lid r (fst (fetchMessages2 api lid r st)) = fetchMessages2 api lid r st"
  by (auto simp: fetchMessages2_def Let_def split: prod.splits sum.splits)

text \<open>
  A \<open>messages\<close> that is neither an array nor null goes through the last fallback as it
  is: the structure stored then holds a string, say, where the page maps over a list.
\<close>

lemma normalized_passes_non_array:
  "normalized (js ''L1'') (JObj [(js ''messages'', JStr (js ''later''))])
     = Some \<lparr>leadId = JStr (js ''L1''), name = JUndefined, messages = JStr (js ''later'')\<rparr>"
  by code_simp

text \<open>
  C1, as amended.  \<open>fetchMessages\<close> throws nothing: every path of its \<open>try\<close> block ends in
  a state, which either keeps the lead it had and carries a non-empty error string, or
  holds a new lead and no error.  On a body that is not JSON (and not empty), as on a
  failed request or an unreadable body, it is the former: the error is set, loading is
  cleared, and the lead stays what it was.  On an empty body or a falsy JSON value the
  lead becomes null, with no error; on a payload that is no array and has no \<open>messages\<close>
  (absent or null, and none under \<open>data\<close>) the lead gets an empty message list, with no
  error.
\<close>

theorem fetchMessages2_degrades:
  assumes "lid \<noteq> []" and "text \<noteq> []" and "\<not> truthy falsy"
    and "truthy data" and "\<not> isArray data" and "nullish (getprop data (js ''messages''))"
    and "nullish (opt_getprop (getprop data (js ''data'')) (js ''messages''))"
  shows "fst (fetchMessages2 api lid (Response status (NotJson text m)) st)
           = st\<lparr>loading := False, error := Some (js ''Invalid JSON from messages endpoint'')\<rparr>
       \<and> fst (fetchMessages2 api lid (NetworkFailure m) st)
           = st\<lparr>loading := False, error := Some (or_default m (js ''Failed to load messages''))\<rparr>
       \<and> fst (fetchMessages2 api lid (Response status (Unreadable m)) st)
           = st\<lparr>loading := False, error := Some (or_default m (js ''Failed to load messages''))\<rparr>
       \<and> fst (fetchMessages2 api lid (Response status (NotJson [] m)) st)
           = st\<lparr>lead := None, loading := False, error := None\<rparr>
       \<and> fst (fetchMessages2 api lid (Response status (Json falsy)) st)
           = st\<lparr>lead := None, loading := False, error := None\<rparr>
       \<and> (\<exists>n. fst (fetchMessages2 api lid (Response status (Json data)) st)
                 = st\<lparr>lead := Some n, loading := False, error := None\<rparr>
              \<and> messages n = JArr [])
       \<and> ((\<exists>e. e \<noteq> [] \<and> fst (fetchMessages2 api lid r st) = st\<lparr>loading := False, error := Some e\<rparr>)
          \<or> (\<exists>n. fst (fetchMessages2 api lid r st)
                   = st\<lparr>lead := n, loading := False, error := None\<rparr>))"
proof -
  obtain n where n: "normalized lid data = Some n" "messages n = JArr []"
    using normalized_no_messages[OF assms(4-7)] by blast
  have "\<exists>n. fst (fetchMessages2 api lid (Response status (Json data)) st)
                 = st\<lparr>lead := Some n, loading := False, error := None\<rparr>
              \<and> messages n = JArr []"
    using n assms(1) by (intro exI[of _ n]) (simp add: fetchMessages2_json)
  then show ?thesis
    using assms(1-3) fetchMessages2_settles[OF assms(1), of api r st]
    by (simp add: fetchMessages2_not_json fetchMessages2_rejected fetchMessages2_empty
          fetchMessages2_json normalized_falsy)
qed

text \<open>
  An instance: the lead \<open>L1\<close>, a bad gateway's HTML page, the payloads \<open>null\<close> and \<open>{}\<close>,
  from the page showing one message.
\<close>

theorem fetchMessages2_degrades_witness:
  "js ''L1'' \<noteq> [] \<and> js ''<html>'' \<noteq> [] \<and> \<not> truthy JNull
   \<and> truthy (JObj []) \<and> \<not> isArray (JObj []) \<and> nullish (getprop (JObj []) (js ''messages''))
   \<and> nullish (opt_getprop (getprop (JObj []) (js ''data'')) (js ''messages''))
   \<and> fst (fetchMessages2 api0 (js ''L1'') (Response 502 (NotJson (js ''<html>'') [])) (initial (Some conversation)))
       = (initial (Some conversation))\<lparr>loading := False, error := Some (js ''Invalid JSON from messages endpoint'')\<rparr>
   \<and> fst (fetchMessages2 api0 (js ''L1'') (Response 502 (Json JNull)) (initial (Some conversation)))
       = (initial (Some conversation))\<lparr>lead := None, loading := False, error := None\<rparr>
   \<and> (\<exists>n. fst (fetchMessages2 api0 (js ''L1'') (Response 502 (Json (JObj []))) (initial (Some conversation)))
             = (initial (Some conversation))\<lparr>lead := Some n, loading := False, error := None\<rparr>
          \<and> messages n = JArr [])"
proof -
  have h: "js ''L1'' \<noteq> []" "js ''<html>'' \<noteq> []" "\<not> truthy JNull"
    "truthy (JObj [])" "\<not> isArray (JObj [])" "nullish (getprop (JObj []) (js ''messages''))"
    "nullish (opt_getprop (getprop (JObj []) (js ''data'')) (js ''messages''))"
    by (simp_all add: js_def opt_getprop_def)
  from fetchMessages2_degrades[OF h, of api0 502 "[]" "initial (Some conversation)"] h
  show ?thesis by blast
qed

text \<open>
  C1 as the specification states it fails: after a body that is not JSON the page still
  holds the conversation it had, one message long, not an empty list.
\<close>

theorem fetchMessages2_unparseable_counterexample:
  "lead (fst (fetchMessages2 api0 (js ''L1'') (Response 502 (NotJson (js ''<html>'') []))
                (initial (Some conversation))))
     = Some conversation
   \<and> messages conversation = JArr [hello] \<and> JArr [hello] \<noteq> JArr []"
  by (simp add: fetchMessages2_not_json literal_not_Nil js_def initial_def conversation_def)

text \<open>
  C2.  For every payload that is an object or an array (any truthy value), whatever the
  status, the structure \<open>fetchMessages\<close> stores has a \<open>leadId\<close>: the payload's, when it
  has one that is not null, and the requested lead's otherwise.
\<close>

theorem fetchMessages2_keeps_leadId:
  "lid \<noteq> [] \<Longrightarrow> truthy data \<Longrightarrow>
     \<exists>n. lead (fst (fetchMessages2 api lid (Response status (Json data)) st)) = Some n
        \<and> leadId n = (case getprop data (js ''leadId'') of
                        JUndefined \<Rightarrow> JStr lid | JNull \<Rightarrow> JStr lid | v \<Rightarrow> v)"
  using normalized_leadId[of data lid]
  by (simp add: fetchMessages2_json nullish_or_cases)

text \<open>An instance for each shape: a wrapped object, a bare array, an object with no fields.\<close>

theorem fetchMessages2_keeps_leadId_witness:
  "js ''L1'' \<noteq> []
   \<and> truthy (JObj [(js ''leadId'', JStr (js ''L9'')), (js ''messages'', JArr [hello])])
   \<and> truthy (JArr [hello]) \<and> truthy (JObj [])
   \<and> (\<exists>n. lead (fst (fetchMessages2 api0 (js ''L1'')
               (Response 200 (Json (JObj [(js ''leadId'', JStr (js ''L9'')),
                                          (js ''messages'', JArr [hello])])))
               (initial None))) = Some n
          \<and> leadId n = JStr (js ''L9''))
   \<and> (\<exists>n. lead (fst (fetchMessages2 api0 (js ''L1'') (Response 200 (Json (JArr [hello])))
               (initial None))) = Some n
          \<and> leadId n = JStr (js ''L1''))
   \<and> (\<exists>n. lead (fst (fetchMessages2 api0 (js ''L1'') (Response 200 (Json (JObj [])))
               (initial None))) = Some n
          \<and> leadId n = JStr (js ''L1''))"
proof -
  have h: "js ''L1'' \<noteq> []" by (simp add: js_def)
  have a: "truthy (JObj [(js ''leadId'', JStr (js ''L9'')), (js ''messages'', JArr [hello])])"
    and b: "truthy (JArr [hello])" and c: "truthy (JObj [])"
    by simp_all
  have ka: "getprop (JObj [(js ''leadId'', JStr (js ''L9'')), (js ''messages'', JArr [hello])])
              (js ''leadId'') = JStr (js ''L9'')"
    and kb: "getprop (JArr [hello]) (js ''leadId'') = JUndefined"
    and kc: "getprop (JObj []) (js ''leadId'') = JUndefined"
    by (simp_all add: keys_not_length)
  from fetchMessages2_keeps_leadId[OF h a, of api0 200 "initial None"]
    fetchMessages2_keeps_leadId[OF h b, of api0 200 "initial None"]
    fetchMessages2_keeps_leadId[OF h c, of api0 200 "initial None"]
  show ?thesis
    unfolding ka kb kc using h a b c by simp
qed

text \<open>
  C3.  Running \<open>fetchMessages\<close> again on the same response, from the state the first run
  left, changes nothing: same state, same effects.  And the normalization is idempotent
  on its own output: normalizing the structure it built gives that structure back.
\<close>

theorem fetchMessages2_idempotent:
  "fetchMessages2 api lid r (fst (fetchMessages2 api lid r st)) = fetchMessages2 api lid r st
   \<and> Option.bind (normalized lid data) (\<lambda>n. normalized lid (LeadData_obj n))
       = normalized lid data"
  by (simp only: fetchMessages2_again normalized_again)

section \<open>The visit banner\<close>

lemma set_insert_cmp: "set (insert_cmp cmp x ys) = insert x (set ys)"
  by (induction ys) auto

lemma set_sort_cmp: "set (sort_cmp cmp xs) = set xs"
  by (induction xs) (simp_all add: sort_cmp_def set_insert_cmp)

lemma sort_cmp_Cons: "sort_cmp cmp (x # xs) = insert_cmp cmp x (sort_cmp cmp xs)"
  by (simp add: sort_cmp_def)

lemma sort_cmp_Nil_iff: "sort_cmp cmp xs = [] \<longleftrightarrow> xs = []"
  using set_sort_cmp[of cmp xs] by (metis set_empty)

lemma first_insert_cmp:
  "first (insert_cmp cmp x ys) = (if ys \<noteq> [] \<and> goes_after cmp x (first ys) then first ys else x)"
  by (cases ys) (simp_all add: first_def)

lemma first_sort_cmp_max:
  fixes t :: "jsval \<Rightarrow> int"
  assumes "xs \<noteq> []"
    and "\<forall>a\<in>set xs. \<forall>b\<in>set xs. goes_after cmp a b = (t a < t b)"
  shows "first (sort_cmp cmp xs) \<in> set xs \<and> (\<forall>w\<in>set xs. t w \<le> t (first (sort_cmp cmp xs)))"
  using assms
proof (induction xs)
  case Nil
  then show ?case by simp
next
  case (Cons x xs)
  show ?case
  proof (cases "xs = []")
    case True
    then show ?thesis by (simp add: sort_cmp_def first_def)
  next
    case False
    let ?m = "first (sort_cmp cmp xs)"
    have ih: "?m \<in> set xs" "\<forall>w\<in>set xs. t w \<le> t ?m"
      using Cons.IH[OF False] Cons.prems(2) by auto
    have ne: "sort_cmp cmp xs \<noteq> []" using False by (simp add: sort_cmp_Nil_iff)
    have ga: "goes_after cmp x ?m = (t x < t ?m)"
      using Cons.prems(2) ih(1) by simp
    show ?thesis
      using ih ne ga by (auto simp: sort_cmp_Cons first_insert_cmp)
  qed
qed

lemma filter_exn_total:
  "\<forall>v\<in>set xs. \<exists>b. p v = Inr b \<Longrightarrow> filter_exn p xs = Inr (filter (\<lambda>v. p v = Inr True) xs)"
  by (induction xs) auto

lemma belongs_defined:
  "\<not> nullish v \<Longrightarrow> \<exists>b. belongs1 cur v = Inr b"
  "\<not> nullish v \<Longrightarrow> \<exists>b. belongs2 cur v = Inr b"
  by (simp_all add: belongs1_def belongs2_def get_def)

lemma visitsForLead_filter:
  assumes "getprop data (js ''visits'') = JArr xs" and "\<forall>v\<in>set xs. \<not> nullish v"
  shows "visitsForLead1 cur data = Inr (filter (matches1 cur) xs)"
    and "visitsForLead2 cur data = Inr (filter (matches2 cur) xs)"
proof -
  have nn: "\<not> nullish data" using assms(1) by (cases data) auto
  have 1: "filter_exn (belongs1 cur) xs = Inr (filter (matches1 cur) xs)"
    unfolding matches1_def using assms(2) by (intro filter_exn_total) (simp add: belongs_defined)
  have 2: "filter_exn (belongs2 cur) xs = Inr (filter (matches2 cur) xs)"
    unfolding matches2_def using assms(2) by (intro filter_exn_total) (simp add: belongs_defined)
  show "visitsForLead1 cur data = Inr (filter (matches1 cur) xs)"
    using nn assms(1) 1 by (simp add: visitsForLead1_def get_def js_filter_def)
  show "visitsForLead2 cur data = Inr (filter (matches2 cur) xs)"
    using nn assms(1) 2 by (simp add: visitsForLead2_def opt_getprop_def nullish_or_def js_filter_def)
qed

lemma consistent_all_tie:
  assumes "\<forall>a\<in>set xs. \<forall>b\<in>set xs. ties cmp a b"
  shows "consistent cmp xs"
proof -
  have n: "\<not> goes_before cmp a b" "\<not> goes_after cmp a b" if "ties cmp a b" for a b
    using that by (auto simp: ties_def goes_before_def goes_after_def split: option.splits)
  show ?thesis
    unfolding consistent_def using assms n by blast
qed

lemma consistent_by_date:
  assumes "\<forall>v\<in>set M. getTime (getprop v (js ''date'')) \<noteq> None"
  shows "consistent (by_date_desc getTime) M"
proof -
  let ?t = "\<lambda>v. the (getTime (getprop v (js ''date'')))"
  have s: "ties (by_date_desc getTime) a b = (?t b = ?t a)"
      "goes_before (by_date_desc getTime) a b = (?t b < ?t a)"
      "goes_after (by_date_desc getTime) a b = (?t a < ?t b)"
    if ab: "a \<in> set M" "b \<in> set M" for a b
  proof -
    obtain ta tb where "getTime (getprop a (js ''date'')) = Some ta"
        "getTime (getprop b (js ''date'')) = Some tb"
      using ab assms by fastforce
    then show "ties (by_date_desc getTime) a b = (?t b = ?t a)"
      "goes_before (by_date_desc getTime) a b = (?t b < ?t a)"
      "goes_after (by_date_desc getTime) a b = (?t a < ?t b)"
      by (simp_all add: ties_def goes_before_def goes_after_def by_date_desc_def)
  qed
  show ?thesis
    unfolding consistent_def by (intro ballI) (simp add: s)
qed

lemma newest_latest_among:
  assumes "\<forall>v\<in>set M. getTime (getprop v (js ''date'')) \<noteq> None"
  shows "latest_among getTime M
           (if length M = 0 then JNull
            else first (Array_sort engine (by_date_desc getTime) M))"
proof (cases "M = []")
  case True
  then show ?thesis by (simp add: latest_among_def)
next
  case False
  let ?t = "\<lambda>v. the (getTime (getprop v (js ''date'')))"
  have ga: "\<forall>a\<in>set M. \<forall>b\<in>set M. goes_after (by_date_desc getTime) a b = (?t a < ?t b)"
  proof (intro ballI)
    fix a b assume "a \<in> set M" "b \<in> set M"
    then obtain ta tb where "getTime (getprop a (js ''date'')) = Some ta"
        "getTime (getprop b (js ''date'')) = Some tb"
      using assms by fastforce
    then show "goes_after (by_date_desc getTime) a b = (?t a < ?t b)"
      by (simp add: goes_after_def by_date_desc_def)
  qed
  from first_sort_cmp_max[OF False ga]
  have m: "first (sort_cmp (by_date_desc getTime) M) \<in> set M"
    and le: "\<forall>w\<in>set M. ?t w \<le> ?t (first (sort_cmp (by_date_desc getTime) M))"
    by simp_all
  obtain t where t: "getTime (getprop (first (sort_cmp (by_date_desc getTime) M)) (js ''date'')) = Some t"
    using m assms by fastforce
  have "\<exists>tw. getTime (getprop w (js ''date'')) = Some tw \<and> tw \<le> t" if w: "w \<in> set M" for w
  proof -
    obtain tw where tw: "getTime (getprop w (js ''date'')) = Some tw"
      using w assms by fastforce
    then show ?thesis using le w t by fastforce
  qed
  then show ?thesis
    using False m t by (simp add: latest_among_def Array_sort_def consistent_by_date[OF assms])
qed

lemma matches_bare:
  "cur \<noteq> [] \<Longrightarrow> getprop v (js ''leadId'') = JStr cur \<Longrightarrow> \<not> nullish v \<Longrightarrow>
     matches1 cur v \<and> matches2 cur v"
  by (simp add: matches1_def matches2_def belongs1_def belongs2_def get_def)

lemma matches_embedded:
  "getprop v (js ''leadId'') = JObj kvs \<Longrightarrow> map_of kvs (js ''_id'') = Some (JStr cur) \<Longrightarrow>
     \<not> nullish v \<Longrightarrow> matches1 cur v \<and> matches2 cur v"
  by (simp add: matches1_def matches2_def belongs1_def belongs2_def get_def)

lemma matches_missing:
  "nullish (getprop v (js ''leadId'')) \<Longrightarrow> \<not> matches1 cur v \<and> \<not> matches2 cur v"
  by (cases "getprop v (js ''leadId'')")
     (auto simp: matches1_def matches2_def belongs1_def belongs2_def get_def)

lemma matches_other_string:
  "getprop v (js ''leadId'') = JStr s \<Longrightarrow> s \<noteq> cur \<Longrightarrow> \<not> matches1 cur v \<and> \<not> matches2 cur v"
  by (auto simp: matches1_def matches2_def belongs1_def belongs2_def get_def)

lemma matches_other_object:
  "getprop v (js ''leadId'') = JObj kvs \<Longrightarrow> map_of kvs (js ''_id'') \<noteq> Some (JStr cur) \<Longrightarrow>
     map_of kvs (js ''id'') \<noteq> Some (JStr cur) \<Longrightarrow> \<not> matches1 cur v \<and> \<not> matches2 cur v"
  by (auto simp: matches1_def matches2_def belongs1_def belongs2_def get_def split: option.splits)

lemma matches1_matches2: "matches1 cur v \<Longrightarrow> matches2 cur v"
  by (cases "getprop v (js ''leadId'')")
     (auto simp: matches1_def matches2_def belongs1_def belongs2_def get_def split: if_splits)

lemma loadVisitBanner_json:
  assumes "ok status" and "getprop data (js ''visits'') = JArr visits"
    and "\<forall>v\<in>set visits. \<not> nullish v"
  shows "loadVisitBanner engine getTime api currentLeadId (Response status (Json data)) st
     = (st\<lparr>latestVisit :=
             (if length (filter (matches1 currentLeadId) visits) = 0 then JNull
              else first (Array_sort engine (by_date_desc getTime)
                     (filter (matches1 currentLeadId) visits)))\<rparr>,
        [Fetch (js ''GET'') (api @ js ''/api/visits'') NoBody])"
  using assms(1) visitsForLead_filter(1)[OF assms(2,3), of currentLeadId]
  by (simp add: loadVisitBanner_def Let_def)

lemma fetchLatestVisit_json:
  assumes "ok status" and "currentLeadId \<noteq> []"
    and "getprop data (js ''visits'') = JArr visits" and "\<forall>v\<in>set visits. \<not> nullish v"
  shows "fst (fetchLatestVisit engine getTime api currentLeadId (Response status (Json data)) st)
     = st\<lparr>latestVisit :=
            (if length (filter (matches2 currentLeadId) visits) = 0 then JNull
             else first (Array_sort engine (by_date_desc getTime)
                    (filter (matches2 currentLeadId) visits)))\<rparr>"
  using assms(1,2) visitsForLead_filter(2)[OF assms(3,4), of currentLeadId]
  by (simp add: fetchLatestVisit_def Let_def)

lemma example_visits:
  "ok 200"
  "getprop visits_payload (js ''visits'') = JArr [visit_jan1, visit_jan3, visit_other, visit_orphan]"
  "\<forall>v\<in>set [visit_jan1, visit_jan3, visit_other, visit_orphan]. \<not> nullish v"
  "\<forall>v\<in>set [visit_jan1, visit_jan3, visit_other, visit_orphan].
      getTime0 (getprop v (js ''date'')) \<noteq> None"
  by code_simp+

lemma example_candidates:
  "filter (matches1 (js ''L1'')) [visit_jan1, visit_jan3, visit_other, visit_orphan]
     = [visit_jan1, visit_jan3]"
  "filter (matches2 (js ''L1'')) [visit_jan1, visit_jan3, visit_other, visit_orphan]
     = [visit_jan1, visit_jan3]"
  by code_simp+

lemma example_times:
  "getTime0 (getprop visit_jan1 (js ''date'')) = Some 1704067200000"
  "getTime0 (getprop visit_jan3 (js ''date'')) = Some 1704240000000"
  "getTime0 (getprop visit_other (js ''date'')) = Some 1704412800000"
  "getTime0 (getprop visit_orphan (js ''date'')) = Some 1704585600000"
  by code_simp+

lemma example_sorted:
  "first (sort_cmp (by_date_desc getTime0) [visit_jan1, visit_jan3]) = visit_jan3"
  by code_simp

lemma example_banner:
  "latestVisit (fst (loadVisitBanner engine getTime0 api0 (js ''L1'')
                  (Response 200 (Json visits_payload)) st)) = visit_jan3"
  "latestVisit (fst (fetchLatestVisit engine getTime0 api0 (js ''L1'')
                  (Response 200 (Json visits_payload)) st)) = visit_jan3"
proof -
  have v: "\<forall>v\<in>set [visit_jan1, visit_jan3]. getTime0 (getprop v (js ''date'')) \<noteq> None"
    using example_times(1,2) by simp
  have s: "first (Array_sort engine (by_date_desc getTime0) [visit_jan1, visit_jan3]) = visit_jan3"
    by (simp only: Array_sort_def consistent_by_date[OF v] if_True example_sorted)
  show "latestVisit (fst (loadVisitBanner engine getTime0 api0 (js ''L1'')
                  (Response 200 (Json visits_payload)) st)) = visit_jan3"
    unfolding loadVisitBanner_json[OF example_visits(1-3)] example_candidates s by simp
  show "latestVisit (fst (fetchLatestVisit engine getTime0 api0 (js ''L1'')
                  (Response 200 (Json visits_payload)) st)) = visit_jan3"
    unfolding fetchLatestVisit_json[OF example_visits(1) literal_not_Nil(4) example_visits(2,3)]
      example_candidates s by simp
qed

lemma example_garbled:
  "getprop visits_garbled (js ''visits'') = JArr [visit_garbled, visit_jan3]"
  "\<forall>v\<in>set [visit_garbled, visit_jan3]. \<not> nullish v"
  "filter (matches1 (js ''L1'')) [visit_garbled, visit_jan3] = [visit_garbled, visit_jan3]"
  "filter (matches2 (js ''L1'')) [visit_garbled, visit_jan3] = [visit_garbled, visit_jan3]"
  "getTime0 (getprop visit_garbled (js ''date'')) = None"
  by code_simp+

lemma example_garbled_sorted:
  "first (Array_sort engine (by_date_desc getTime0) [visit_garbled, visit_jan3]) = visit_garbled"
proof -
  have t: "ties (by_date_desc getTime0) a b"
    if "a \<in> set [visit_garbled, visit_jan3]" "b \<in> set [visit_garbled, visit_jan3]" for a b
    using that example_garbled(5) example_times(2)
    by (auto simp: ties_def by_date_desc_def)
  have c: "consistent (by_date_desc getTime0) [visit_garbled, visit_jan3]"
    by (rule consistent_all_tie) (use t in blast)
  have g: "\<not> goes_after (by_date_desc getTime0) visit_garbled visit_jan3"
    by (simp add: goes_after_def by_date_desc_def example_garbled(5) example_times(2))
  show ?thesis
    by (simp add: Array_sort_def c sort_cmp_def g first_def)
qed

text \<open>
  Where every visit of the lead has a valid date the resolvers do select the latest.  Of
  a collection of visits (none of them null) in which every visit of the lead has a
  valid date, both resolvers put in the banner a visit that is latest among those their
  filter accepts for the lead: one of them, with no other of them dated later; and null
  when the filter accepts none.  Nothing else of the state changes, the error least of
  all.
\<close>

theorem visit_banner_selects_latest:
  assumes "ok status" and "currentLeadId \<noteq> []"
    and "getprop data (js ''visits'') = JArr visits"
    and "\<forall>v\<in>set visits. \<not> nullish v"
    and "\<forall>v\<in>set visits. matches2 currentLeadId v
           \<longrightarrow> getTime (getprop v (js ''date'')) \<noteq> None"
  shows "latest_among getTime (filter (matches1 currentLeadId) visits)
           (latestVisit (fst (loadVisitBanner engine getTime api currentLeadId
                                (Response status (Json data)) st)))
       \<and> fst (loadVisitBanner engine getTime api currentLeadId (Response status (Json data)) st)
           = st\<lparr>latestVisit := latestVisit (fst (loadVisitBanner engine getTime api currentLeadId
                                                      (Response status (Json data)) st))\<rparr>
       \<and> latest_among getTime (filter (matches2 currentLeadId) visits)
           (latestVisit (fst (fetchLatestVisit engine getTime api currentLeadId
                                (Response status (Json data)) st)))
       \<and> fst (fetchLatestVisit engine getTime api currentLeadId (Response status (Json data)) st)
           = st\<lparr>latestVisit := latestVisit (fst (fetchLatestVisit engine getTime api currentLeadId
                                                      (Response status (Json data)) st))\<rparr>"
proof -
  have v1: "\<forall>v\<in>set (filter (matches1 currentLeadId) visits).
              getTime (getprop v (js ''date'')) \<noteq> None"
    using assms(5) matches1_matches2 by simp
  have v2: "\<forall>v\<in>set (filter (matches2 currentLeadId) visits).
              getTime (getprop v (js ''date'')) \<noteq> None"
    using assms(5) by simp
  show ?thesis
    unfolding loadVisitBanner_json[OF assms(1,3,4)] fetchLatestVisit_json[OF assms(1-4)]
    using newest_latest_among[OF v1] newest_latest_among[OF v2] by simp
qed

text \<open>
  An instance: for the lead \<open>L1\<close>, visits dated 2024-01-01 (by bare identifier) and
  2024-01-03 (by embedded object), one of another lead and one of no lead; the entry
  of 2024-01-03 is selected.
\<close>

theorem visit_banner_selects_latest_witness:
  "ok 200 \<and> js ''L1'' \<noteq> []
   \<and> getprop visits_payload (js ''visits'') = JArr [visit_jan1, visit_jan3, visit_other, visit_orphan]
   \<and> \<not> nullish visit_jan1 \<and> \<not> nullish visit_jan3 \<and> \<not> nullish visit_other
   \<and> \<not> nullish visit_orphan
   \<and> getTime0 (getprop visit_jan1 (js ''date'')) = Some 1704067200000
   \<and> getTime0 (getprop visit_jan3 (js ''date'')) = Some 1704240000000
   \<and> getTime0 (getprop visit_other (js ''date'')) = Some 1704412800000
   \<and> getTime0 (getprop visit_orphan (js ''date'')) = Some 1704585600000
   \<and> filter (matches1 (js ''L1'')) [visit_jan1, visit_jan3, visit_other, visit_orphan]
       = [visit_jan1, visit_jan3]
   \<and> filter (matches2 (js ''L1'')) [visit_jan1, visit_jan3, visit_other, visit_orphan]
       = [visit_jan1, visit_jan3]
   \<and> latestVisit (fst (loadVisitBanner sort_cmp getTime0 api0 (js ''L1'')
         (Response 200 (Json visits_payload)) (initial JNull))) = visit_jan3
   \<and> latestVisit (fst (fetchLatestVisit sort_cmp getTime0 api0 (js ''L1'')
         (Response 200 (Json visits_payload)) (initial (None :: LeadData option)))) = visit_jan3"
proof -
  have d: "\<forall>v\<in>set [visit_jan1, visit_jan3, visit_other, visit_orphan].
             matches2 (js ''L1'') v \<longrightarrow> getTime0 (getprop v (js ''date'')) \<noteq> None"
    using example_visits(4) by blast
  note h = example_visits(1) literal_not_Nil(4) example_visits(2,3) d
  note t = example_times
  have later: "v = visit_jan3"
    if "latest_among getTime0 [visit_jan1, visit_jan3] v" for v
  proof -
    from that have "v = visit_jan1 \<or> v = visit_jan3"
      and "\<exists>t. getTime0 (getprop v (js ''date'')) = Some t
             \<and> (\<exists>tw. getTime0 (getprop visit_jan3 (js ''date'')) = Some tw \<and> tw \<le> t)"
      by (auto simp: latest_among_def)
    then show ?thesis using t(1,2) by auto
  qed
  from visit_banner_selects_latest[where engine = sort_cmp and api = api0 and st = "initial JNull", OF h]
  have 1: "latestVisit (fst (loadVisitBanner sort_cmp getTime0 api0 (js ''L1'')
         (Response 200 (Json visits_payload)) (initial JNull))) = visit_jan3"
    unfolding example_candidates by (intro later) blast
  from visit_banner_selects_latest[where engine = sort_cmp and api = api0
      and st = "initial (None :: LeadData option)", OF h]
  have 2: "latestVisit (fst (fetchLatestVisit sort_cmp getTime0 api0 (js ''L1'')
         (Response 200 (Json visits_payload)) (initial (None :: LeadData option)))) = visit_jan3"
    unfolding example_candidates by (intro later) blast
  have n: "\<not> nullish visit_jan1" "\<not> nullish visit_jan3" "\<not> nullish visit_other"
    "\<not> nullish visit_orphan"
    using h(4) by simp_all
  show ?thesis
    using h(1-3) n t example_candidates 1 2 by blast
qed


text \<open>
  The date of a visit is any string.  One that \<open>new Date\<close> cannot read has the time value
  \<open>NaN\<close>, and every comparison with it yields \<open>NaN\<close>, which the sort counts as a tie.
  Take two visits of the lead \<open>L1\<close>: the first with the date \<open>not a date\<close>, the second
  dated 2024-01-03.  All comparisons tie, so the sort, being stable, leaves the two as
  they came, whatever the engine.  The visit without a date is not latest among the two.
\<close>

lemma garbled_not_latest:
  "\<not> latest_among getTime0 (filter (matches1 (js ''L1'')) [visit_garbled, visit_jan3]) visit_garbled"
  "\<not> latest_among getTime0 (filter (matches2 (js ''L1'')) [visit_garbled, visit_jan3]) visit_garbled"
  unfolding example_garbled(3,4)
  by (simp_all add: latest_among_def example_garbled(5) example_times(2))

text \<open>
  C4.  The resolvers do not select a visit with the maximum scheduled date from every
  collection.  Given, for the lead \<open>L1\<close>, a visit whose date is the string \<open>not a date\<close>
  followed by a visit dated 2024-01-03, both resolvers, on every engine, put the visit
  without a date in the banner, although the visit of 2024-01-03 matches the lead and
  is the only one that has a scheduled date.
\<close>

theorem visit_banner_misses_latest:
  "latestVisit (fst (loadVisitBanner engine getTime0 api0 (js ''L1'')
       (Response 200 (Json visits_garbled)) (initial JNull))) = visit_garbled
   \<and> latestVisit (fst (fetchLatestVisit engine getTime0 api0 (js ''L1'')
       (Response 200 (Json visits_garbled)) (initial (None :: LeadData option)))) = visit_garbled
   \<and> getTime0 (getprop visit_garbled (js ''date'')) = None
   \<and> matches1 (js ''L1'') visit_jan3 \<and> matches2 (js ''L1'') visit_jan3
   \<and> getTime0 (getprop visit_jan3 (js ''date'')) = Some 1704240000000
   \<and> visit_jan3 \<noteq> visit_garbled"
proof -
  have m: "matches1 (js ''L1'') visit_jan3" "matches2 (js ''L1'') visit_jan3"
    "visit_jan3 \<noteq> visit_garbled"
    by code_simp+
  have 1: "latestVisit (fst (loadVisitBanner engine getTime0 api0 (js ''L1'')
       (Response 200 (Json visits_garbled)) (initial JNull))) = visit_garbled"
    unfolding loadVisitBanner_json[OF example_visits(1) example_garbled(1,2)]
      example_garbled(3) example_garbled_sorted by simp
  have 2: "latestVisit (fst (fetchLatestVisit engine getTime0 api0 (js ''L1'')
       (Response 200 (Json visits_garbled)) (initial (None :: LeadData option)))) = visit_garbled"
    unfolding fetchLatestVisit_json[OF example_visits(1) literal_not_Nil(4) example_garbled(1,2)]
      example_garbled(4) example_garbled_sorted by simp
  show ?thesis
    using 1 2 m example_garbled(5) example_times(2) by simp
qed

text \<open>
  C5.  From a collection of visits (none of them null), the filter of either resolver
  keeps every entry whose \<open>leadId\<close> is the lead's identifier as a string, and every entry
  whose \<open>leadId\<close> is an object with that identifier as \<open>_id\<close>; it drops every entry whose
  \<open>leadId\<close> is missing or null, is another string, or is an object with that identifier
  neither as \<open>_id\<close> nor as \<open>id\<close>.
\<close>

theorem visit_filter_accepts_both_shapes:
  assumes "currentLeadId \<noteq> []"
    and "getprop data (js ''visits'') = JArr visits"
    and "\<forall>v\<in>set visits. \<not> nullish v"
  shows "\<exists>c1 c2. visitsForLead1 currentLeadId data = Inr c1
           \<and> visitsForLead2 currentLeadId data = Inr c2
           \<and> set c1 \<subseteq> set visits \<and> set c2 \<subseteq> set visits
           \<and> (\<forall>v\<in>set visits.
                 (getprop v (js ''leadId'') = JStr currentLeadId \<longrightarrow> v \<in> set c1 \<and> v \<in> set c2)
               \<and> (\<forall>kvs. getprop v (js ''leadId'') = JObj kvs
                          \<and> map_of kvs (js ''_id'') = Some (JStr currentLeadId)
                        \<longrightarrow> v \<in> set c1 \<and> v \<in> set c2)
               \<and> (nullish (getprop v (js ''leadId'')) \<longrightarrow> v \<notin> set c1 \<and> v \<notin> set c2)
               \<and> (\<forall>s. getprop v (js ''leadId'') = JStr s \<and> s \<noteq> currentLeadId
                        \<longrightarrow> v \<notin> set c1 \<and> v \<notin> set c2)
               \<and> (\<forall>kvs. getprop v (js ''leadId'') = JObj kvs
                          \<and> map_of kvs (js ''_id'') \<noteq> Some (JStr currentLeadId)
                          \<and> map_of kvs (js ''id'') \<noteq> Some (JStr currentLeadId)
                        \<longrightarrow> v \<notin> set c1 \<and> v \<notin> set c2))"
proof (intro exI conjI ballI)
  show "visitsForLead1 currentLeadId data = Inr (filter (matches1 currentLeadId) visits)"
    by (rule visitsForLead_filter(1)[OF assms(2,3)])
  show "visitsForLead2 currentLeadId data = Inr (filter (matches2 currentLeadId) visits)"
    by (rule visitsForLead_filter(2)[OF assms(2,3)])
  show "set (filter (matches1 currentLeadId) visits) \<subseteq> set visits" by simp
  show "set (filter (matches2 currentLeadId) visits) \<subseteq> set visits" by simp
next
  fix v assume v: "v \<in> set visits"
  then have nn: "\<not> nullish v" using assms(3) by simp
  show "getprop v (js ''leadId'') = JStr currentLeadId \<longrightarrow>
          v \<in> set (filter (matches1 currentLeadId) visits)
        \<and> v \<in> set (filter (matches2 currentLeadId) visits)"
    using v nn assms(1) matches_bare[of currentLeadId v] by simp
  show "\<forall>kvs. getprop v (js ''leadId'') = JObj kvs
               \<and> map_of kvs (js ''_id'') = Some (JStr currentLeadId)
          \<longrightarrow> v \<in> set (filter (matches1 currentLeadId) visits)
            \<and> v \<in> set (filter (matches2 currentLeadId) visits)"
    using v nn matches_embedded[of v _ currentLeadId] by simp
  show "nullish (getprop v (js ''leadId''))
          \<longrightarrow> v \<notin> set (filter (matches1 currentLeadId) visits)
            \<and> v \<notin> set (filter (matches2 currentLeadId) visits)"
    using matches_missing[of v currentLeadId] by simp
  show "\<forall>s. getprop v (js ''leadId'') = JStr s \<and> s \<noteq> currentLeadId
          \<longrightarrow> v \<notin> set (filter (matches1 currentLeadId) visits)
            \<and> v \<notin> set (filter (matches2 currentLeadId) visits)"
    using matches_other_string[of v _ currentLeadId] by simp
  show "\<forall>kvs. getprop v (js ''leadId'') = JObj kvs
               \<and> map_of kvs (js ''_id'') \<noteq> Some (JStr currentLeadId)
               \<and> map_of kvs (js ''id'') \<noteq> Some (JStr currentLeadId)
          \<longrightarrow> v \<notin> set (filter (matches1 currentLeadId) visits)
            \<and> v \<notin> set (filter (matches2 currentLeadId) visits)"
    using matches_other_object[of v _ currentLeadId] by simp
qed

text \<open>An instance: the four visits above; the first two are kept, the other two dropped.\<close>

theorem visit_filter_accepts_both_shapes_witness:
  "js ''L1'' \<noteq> []
   \<and> getprop visits_payload (js ''visits'') = JArr [visit_jan1, visit_jan3, visit_other, visit_orphan]
   \<and> \<not> nullish visit_jan1 \<and> \<not> nullish visit_jan3 \<and> \<not> nullish visit_other
   \<and> \<not> nullish visit_orphan
   \<and> getprop visit_jan1 (js ''leadId'') = JStr (js ''L1'')
   \<and> getprop visit_jan3 (js ''leadId'')
        = JObj [(js ''_id'', JStr (js ''L1'')), (js ''name'', JStr (js ''Asha''))]
   \<and> map_of [(js ''_id'', JStr (js ''L1'')), (js ''name'', JStr (js ''Asha''))] (js ''_id'')
        = Some (JStr (js ''L1''))
   \<and> getprop visit_other (js ''leadId'') = JStr (js ''L2'') \<and> js ''L2'' \<noteq> js ''L1''
   \<and> nullish (getprop visit_orphan (js ''leadId''))
   \<and> (\<exists>c1 c2. visitsForLead1 (js ''L1'') visits_payload = Inr c1
         \<and> visitsForLead2 (js ''L1'') visits_payload = Inr c2
         \<and> visit_jan1 \<in> set c1 \<and> visit_jan1 \<in> set c2
         \<and> visit_jan3 \<in> set c1 \<and> visit_jan3 \<in> set c2
         \<and> visit_other \<notin> set c1 \<and> visit_other \<notin> set c2
         \<and> visit_orphan \<notin> set c1 \<and> visit_orphan \<notin> set c2)"
proof -
  note h = literal_not_Nil(4) example_visits(2,3)
  have k: "getprop visit_jan1 (js ''leadId'') = JStr (js ''L1'')"
    "getprop visit_jan3 (js ''leadId'')
       = JObj [(js ''_id'', JStr (js ''L1'')), (js ''name'', JStr (js ''Asha''))]"
    "map_of [(js ''_id'', JStr (js ''L1'')), (js ''name'', JStr (js ''Asha''))] (js ''_id'')
       = Some (JStr (js ''L1''))"
    "getprop visit_other (js ''leadId'') = JStr (js ''L2'')" "js ''L2'' \<noteq> js ''L1''"
    "nullish (getprop visit_orphan (js ''leadId''))"
    by code_simp+
  from visit_filter_accepts_both_shapes[OF h]
  obtain c1 c2 where c: "visitsForLead1 (js ''L1'') visits_payload = Inr c1"
      "visitsForLead2 (js ''L1'') visits_payload = Inr c2"
    and each: "\<forall>v\<in>set [visit_jan1, visit_jan3, visit_other, visit_orphan].
        (getprop v (js ''leadId'') = JStr (js ''L1'') \<longrightarrow> v \<in> set c1 \<and> v \<in> set c2)
      \<and> (\<forall>kvs. getprop v (js ''leadId'') = JObj kvs
                 \<and> map_of kvs (js ''_id'') = Some (JStr (js ''L1''))
               \<longrightarrow> v \<in> set c1 \<and> v \<in> set c2)
      \<and> (nullish (getprop v (js ''leadId'')) \<longrightarrow> v \<notin> set c1 \<and> v \<notin> set c2)
      \<and> (\<forall>s. getprop v (js ''leadId'') = JStr s \<and> s \<noteq> js ''L1''
               \<longrightarrow> v \<notin> set c1 \<and> v \<notin> set c2)
      \<and> (\<forall>kvs. getprop v (js ''leadId'') = JObj kvs
                 \<and> map_of kvs (js ''_id'') \<noteq> Some (JStr (js ''L1''))
                 \<and> map_of kvs (js ''id'') \<noteq> Some (JStr (js ''L1''))
               \<longrightarrow> v \<notin> set c1 \<and> v \<notin> set c2)"
    by blast
  have 1: "visit_jan1 \<in> set c1 \<and> visit_jan1 \<in> set c2"
    using each k(1) by simp
  have 2: "visit_jan3 \<in> set c1 \<and> visit_jan3 \<in> set c2"
    using each k(2,3) by simp
  have 3: "visit_other \<notin> set c1 \<and> visit_other \<notin> set c2"
    using each k(4,5) by simp
  have 4: "visit_orphan \<notin> set c1 \<and> visit_orphan \<notin> set c2"
    using each k(6) by simp
  have n: "\<not> nullish visit_jan1" "\<not> nullish visit_jan3" "\<not> nullish visit_other"
    "\<not> nullish visit_orphan"
    using h(3) by simp_all
  show ?thesis
    using h(1,2) n k c 1 2 3 4 by blast
qed

text \<open>
  C8.  When the request for the visits is answered with a status that is not a success,
  or not answered at all, both resolvers leave the whole state, the banner with it, as
  it was; all they do beyond the request is one \<open>console.error\<close>.
\<close>

theorem visit_banner_failure_keeps_state:
  assumes "\<not> ok status" and "currentLeadId \<noteq> []"
  shows "loadVisitBanner engine getTime api currentLeadId (Response status p) st
           = (st, [Fetch (js ''GET'') (api @ js ''/api/visits'') NoBody,
                   ConsoleError (js ''Failed to load visits'')])
       \<and> fetchLatestVisit engine getTime api currentLeadId (Response status p) st
           = (st, [ConsoleLog (js ''fetchLatestVisit: calling''),
                   Fetch (js ''GET'') (api @ js ''/api/visits'') NoBody,
                   ConsoleError (js ''fetchLatestVisit: failed status'')])
       \<and> loadVisitBanner engine getTime api currentLeadId (NetworkFailure m) st
           = (st, [Fetch (js ''GET'') (api @ js ''/api/visits'') NoBody,
                   ConsoleError (js ''loadVisitBanner error:'')])
       \<and> fetchLatestVisit engine getTime api currentLeadId (NetworkFailure m) st
           = (st, [ConsoleLog (js ''fetchLatestVisit: calling''),
                   Fetch (js ''GET'') (api @ js ''/api/visits'') NoBody,
                   ConsoleError (js ''fetchLatestVisit error:'')])"
  using assms by (simp add: loadVisitBanner_def fetchLatestVisit_def Let_def)

text \<open>An instance: a status 500, with the visit of 2024-01-01 in the banner.\<close>

theorem visit_banner_failure_keeps_state_witness:
  "\<not> ok 500 \<and> js ''L1'' \<noteq> []
   \<and> fst (loadVisitBanner sort_cmp getTime0 api0 (js ''L1'') (Response 500 (Json visits_payload))
            ((initial JNull)\<lparr>latestVisit := visit_jan1\<rparr>))
       = (initial JNull)\<lparr>latestVisit := visit_jan1\<rparr>
   \<and> fst (fetchLatestVisit sort_cmp getTime0 api0 (js ''L1'') (Response 500 (Json visits_payload))
            ((initial (None :: LeadData option))\<lparr>latestVisit := visit_jan1\<rparr>))
       = (initial (None :: LeadData option))\<lparr>latestVisit := visit_jan1\<rparr>
   \<and> fst (loadVisitBanner sort_cmp getTime0 api0 (js ''L1'') (NetworkFailure (js ''Failed to fetch''))
            ((initial JNull)\<lparr>latestVisit := visit_jan1\<rparr>))
       = (initial JNull)\<lparr>latestVisit := visit_jan1\<rparr>
   \<and> fst (fetchLatestVisit sort_cmp getTime0 api0 (js ''L1'') (NetworkFailure (js ''Failed to fetch''))
            ((initial (None :: LeadData option))\<lparr>latestVisit := visit_jan1\<rparr>))
       = (initial (None :: LeadData option))\<lparr>latestVisit := visit_jan1\<rparr>"
proof -
  have h: "\<not> ok 500" "js ''L1'' \<noteq> []"
    by (simp_all add: ok_def js_def)
  show ?thesis
    using h
      visit_banner_failure_keeps_state[where engine = sort_cmp and getTime = getTime0
        and api = api0 and p = "Json visits_payload" and m = "js ''Failed to fetch''"
        and st = "(initial JNull)\<lparr>latestVisit := visit_jan1\<rparr>", OF h]
      visit_banner_failure_keeps_state[where engine = sort_cmp and getTime = getTime0
        and api = api0 and p = "Json visits_payload" and m = "js ''Failed to fetch''"
        and st = "(initial (None :: LeadData option))\<lparr>latestVisit := visit_jan1\<rparr>", OF h]
    by simp
qed

section \<open>Sending a reply\<close>

lemma trim_Nil_iff: "trim s = [] \<longleftrightarrow> (\<forall>c\<in>set s. is_space c)"
proof
  assume "trim s = []"
  then have "\<forall>c\<in>set (dropWhile is_space s). is_space c"
    by (simp add: trim_def dropWhile_eq_Nil_conv)
  then have "dropWhile is_space s = []"
    using hd_dropWhile[of is_space s] by (cases "dropWhile is_space s") auto
  then show "\<forall>c\<in>set s. is_space c" by (simp add: dropWhile_eq_Nil_conv)
next
  assume "\<forall>c\<in>set s. is_space c"
  then show "trim s = []" by (auto simp: trim_def dropWhile_eq_Nil_conv dest: set_dropWhileD)
qed

lemma fetchMessages1_fields:
  "input (fst (fetchMessages1 api lid r st)) = input st"
  "sending (fst (fetchMessages1 api lid r st)) = sending st"
  by (auto simp: fetchMessages1_def Let_def split: response.splits payload.splits)

lemma fetchMessages2_fields:
  "input (fst (fetchMessages2 api lid r st)) = input st"
  "sending (fst (fetchMessages2 api lid r st)) = sending st"
  by (auto simp: fetchMessages2_def Let_def split: prod.splits sum.splits)

lemma fetchMessages1_forgets:
  "lead (fst (fetchMessages1 api lid r (st\<lparr>sending := s, input := i\<rparr>))) = lead (fst (fetchMessages1 api lid r st))"
  "error (fst (fetchMessages1 api lid r (st\<lparr>sending := s, input := i\<rparr>))) = error (fst (fetchMessages1 api lid r st))"
  by (auto simp: fetchMessages1_def Let_def split: response.splits payload.splits)

lemma fetchMessages2_forgets:
  "lead (fst (fetchMessages2 api lid r (st\<lparr>sending := s, input := i\<rparr>))) = lead (fst (fetchMessages2 api lid r st))"
  "error (fst (fetchMessages2 api lid r (st\<lparr>sending := s, input := i\<rparr>))) = error (fst (fetchMessages2 api lid r st))"
  by (auto simp: fetchMessages2_def Let_def split: prod.splits sum.splits)

lemma fetchMessages2_error_fresh:
  "lid \<noteq> [] \<Longrightarrow> error (fst (fetchMessages2 api lid r (st\<lparr>sending := s, error := e\<rparr>))) = error (fst (fetchMessages2 api lid r st))"
  by (auto simp: fetchMessages2_def Let_def split: prod.splits sum.splits)

lemma fetchMessages1_requests:
  "lid \<noteq> [] \<Longrightarrow> filter is_request (snd (fetchMessages1 api lid r st))
     = [Fetch (js ''GET'') (api @ js ''/api/leads/'' @ lid @ js ''/messages'') NoBody]"
  by (auto simp: fetchMessages1_def Let_def split: response.splits payload.splits)

lemma fetchMessages2_requests:
  "lid \<noteq> [] \<Longrightarrow> filter is_request (snd (fetchMessages2 api lid r st))
     = [Fetch (js ''GET'') (api @ js ''/api/leads/'' @ lid @ js ''/messages'') NoBody]"
  by (auto simp: fetchMessages2_def fetchMessages2_try_def Let_def split: response.splits payload.splits)

lemma handleSend1_ok:
  assumes "trim (input st) \<noteq> []" "lid \<noteq> []" "ok status"
  shows "handleSend1 api lid (Response status p) refetch st
     = ((fst (fetchMessages1 api lid refetch (st\<lparr>sending := True, input := []\<rparr>)))\<lparr>sending := False\<rparr>,
        Fetch (js ''POST'') (api @ js ''/leads/'' @ lid @ js ''/reply'')
                (FormBody [(js ''message'', trim (input st))])
        # snd (fetchMessages1 api lid refetch (st\<lparr>sending := True, input := []\<rparr>)))"
  using assms by (simp add: handleSend1_def Let_def split: prod.splits)

lemma handleSend1_success:
  assumes "trim (input st) \<noteq> []" "lid \<noteq> []" "ok status"
  shows "input (fst (handleSend1 api lid (Response status p) refetch st)) = []"
    and "sending (fst (handleSend1 api lid (Response status p) refetch st)) = False"
    and "lead (fst (handleSend1 api lid (Response status p) refetch st))
           = lead (fst (fetchMessages1 api lid refetch st))"
    and "filter is_request (snd (handleSend1 api lid (Response status p) refetch st))
           = [Fetch (js ''POST'') (api @ js ''/leads/'' @ lid @ js ''/reply'')
                (FormBody [(js ''message'', trim (input st))]),
              Fetch (js ''GET'') (api @ js ''/api/leads/'' @ lid @ js ''/messages'') NoBody]"
     apply (simp add: handleSend1_ok[OF assms] fetchMessages1_fields)
    apply (simp add: handleSend1_ok[OF assms])
   apply (simp add: handleSend1_ok[OF assms] fetchMessages1_forgets)
  apply (simp add: handleSend1_ok[OF assms] fetchMessages1_requests[OF assms(2)])
  done


lemma handleSend2_ok:
  assumes "trim (input st) \<noteq> []" "lid \<noteq> []" "ok status" "readable p"
  shows "handleSend2 api lid (Response status p) refetch st
     = ((fst (fetchMessages2 api lid refetch (st\<lparr>sending := True, input := []\<rparr>)))\<lparr>sending := False\<rparr>,
        [ConsoleLog (js ''handleSend: POST to''),
         Fetch (js ''POST'') (api @ js ''/api/leads/'' @ lid @ js ''/reply'')
                (FormBody [(js ''message'', trim (input st))]),
         ConsoleLog (js ''handleSend: status''),
         ConsoleLog (js ''handleSend: raw response:'')]
        @ snd (fetchMessages2 api lid refetch (st\<lparr>sending := True, input := []\<rparr>)))"
proof (cases p)
  case (Unreadable m)
  then show ?thesis using assms(4) by (simp add: readable_def)
next
  case (NotJson t m)
  then show ?thesis using assms(1-3) by (simp add: handleSend2_def Let_def split: prod.splits)
next
  case (Json v)
  then show ?thesis using assms(1-3) by (simp add: handleSend2_def Let_def split: prod.splits)
qed

lemma handleSend2_success:
  assumes "trim (input st) \<noteq> []" "lid \<noteq> []" "ok status" "readable p"
  shows "input (fst (handleSend2 api lid (Response status p) refetch st)) = []"
    and "sending (fst (handleSend2 api lid (Response status p) refetch st)) = False"
    and "lead (fst (handleSend2 api lid (Response status p) refetch st))
           = lead (fst (fetchMessages2 api lid refetch st))"
    and "filter is_request (snd (handleSend2 api lid (Response status p) refetch st))
           = [Fetch (js ''POST'') (api @ js ''/api/leads/'' @ lid @ js ''/reply'')
                (FormBody [(js ''message'', trim (input st))]),
              Fetch (js ''GET'') (api @ js ''/api/leads/'' @ lid @ js ''/messages'') NoBody]"
     apply (simp add: handleSend2_ok[OF assms] fetchMessages2_fields)
    apply (simp add: handleSend2_ok[OF assms])
   apply (simp add: handleSend2_ok[OF assms] fetchMessages2_forgets)
  apply (simp add: handleSend2_ok[OF assms] fetchMessages2_requests[OF assms(2)])
  done

lemma handleSend1_failure:
  assumes "trim (input st) \<noteq> []" "lid \<noteq> []" "\<not> ok status"
  shows "handleSend1 api lid (Response status p) refetch st
     = (st\<lparr>sending := False\<rparr>,
        [Fetch (js ''POST'') (api @ js ''/leads/'' @ lid @ js ''/reply'')
           (FormBody [(js ''message'', trim (input st))]),
         ConsoleError (js ''Send reply failed'')])"
  using assms by (simp add: handleSend1_def Let_def)

lemma handleSend2_failure:
  assumes "trim (input st) \<noteq> []" "lid \<noteq> []" "\<not> ok status" "readable p"
  shows "handleSend2 api lid (Response status p) refetch st
     = (st\<lparr>sending := False, error := Some (js ''Send failed: '' @ show_nat status)\<rparr>,
        [ConsoleLog (js ''handleSend: POST to''),
         Fetch (js ''POST'') (api @ js ''/api/leads/'' @ lid @ js ''/reply'')
                (FormBody [(js ''message'', trim (input st))]),
         ConsoleLog (js ''handleSend: status''),
         ConsoleLog (js ''handleSend: raw response:'')])"
proof (cases p)
  case (Unreadable m)
  then show ?thesis using assms(4) by (simp add: readable_def)
next
  case (NotJson t m)
  then show ?thesis using assms(1-3) by (simp add: handleSend2_def Let_def)
next
  case (Json v)
  then show ?thesis using assms(1-3) by (simp add: handleSend2_def Let_def)
qed


lemma example_send:
  "\<forall>c\<in>set [0x20, 0x9, 0xA0, 0x2003, 0xA]. is_space c"
  "trim (js '' hello '') = js ''hello''"
  "ok 200" "\<not> ok 500" "show_nat 500 = js ''500''"
  by code_simp+

text \<open>
  C6.  When the input is empty or holds nothing but white space, \<open>handleSend\<close> of either
  page returns at once: the state is what it was, and nothing at all is done, a
  request least of all.
\<close>

theorem handleSend_blank_is_noop:
  "\<forall>c\<in>set (input st1). is_space c \<Longrightarrow> \<forall>c\<in>set (input st2). is_space c \<Longrightarrow>
     handleSend1 api lid post refetch st1 = (st1, [])
   \<and> handleSend2 api lid post refetch st2 = (st2, [])"
  by (simp add: handleSend1_def handleSend2_def trim_Nil_iff[symmetric])

text \<open>An instance: a space, a tab, a no-break space, an em space and a line feed.\<close>

theorem handleSend_blank_is_noop_witness:
  "is_space 0x20 \<and> is_space 0x9 \<and> is_space 0xA0 \<and> is_space 0x2003 \<and> is_space 0xA
   \<and> handleSend1 api0 (js ''L1'') (Response 200 (Json JNull)) (Response 200 (Json JNull))
        ((initial JNull)\<lparr>input := [0x20, 0x9, 0xA0, 0x2003, 0xA]\<rparr>)
       = ((initial JNull)\<lparr>input := [0x20, 0x9, 0xA0, 0x2003, 0xA]\<rparr>, [])
   \<and> handleSend2 api0 (js ''L1'') (Response 200 (Json JNull)) (Response 200 (Json JNull))
        ((initial None)\<lparr>input := [0x20, 0x9, 0xA0, 0x2003, 0xA]\<rparr>)
       = ((initial None)\<lparr>input := [0x20, 0x9, 0xA0, 0x2003, 0xA]\<rparr>, [])"
proof -
  have s: "is_space 0x20" "is_space 0x9" "is_space 0xA0" "is_space 0x2003" "is_space 0xA"
    using example_send(1) by simp_all
  have h1: "\<forall>c\<in>set (input ((initial JNull)\<lparr>input := [0x20, 0x9, 0xA0, 0x2003, 0xA]\<rparr>)). is_space c"
    and h2: "\<forall>c\<in>set (input ((initial (None :: LeadData option))\<lparr>input := [0x20, 0x9, 0xA0, 0x2003, 0xA]\<rparr>)).
         is_space c"
    using s by simp_all
  from handleSend_blank_is_noop[OF h1 h2] s show ?thesis by blast
qed

text \<open>
  What either \<open>handleSend\<close> does with a reply that is not blank, to a lead:
  when the backend answers the request with a success status (and, on the second page,
  a body that can be read), the input is cleared, the requests made are the reply and
  then one fetch of the messages, and the lead the page ends with is the one that fetch
  gives from the state before, the reply appended nowhere;
  when it answers with any other status, the input stays as typed and no fetch is
  made: the first page logs the failure with \<open>console.error\<close> and changes nothing but the
  sending flag, the second page sets the error to \<open>Send failed:\<close> and the status, an
  error that the next \<open>fetchMessages\<close> replaces by its own outcome.
\<close>

theorem handleSend_outcomes:
  assumes "trim (input st1) \<noteq> []" and "trim (input st2) \<noteq> []" and "lid \<noteq> []"
    and "ok good" and "\<not> ok bad" and "readable p"
  shows "input (fst (handleSend1 api lid (Response good p) refetch st1)) = []
       \<and> lead (fst (handleSend1 api lid (Response good p) refetch st1))
           = lead (fst (fetchMessages1 api lid refetch st1))
       \<and> filter is_request (snd (handleSend1 api lid (Response good p) refetch st1))
           = [Fetch (js ''POST'') (api @ js ''/leads/'' @ lid @ js ''/reply'')
                (FormBody [(js ''message'', trim (input st1))]),
              Fetch (js ''GET'') (api @ js ''/api/leads/'' @ lid @ js ''/messages'') NoBody]
       \<and> input (fst (handleSend2 api lid (Response good p) refetch st2)) = []
       \<and> lead (fst (handleSend2 api lid (Response good p) refetch st2))
           = lead (fst (fetchMessages2 api lid refetch st2))
       \<and> filter is_request (snd (handleSend2 api lid (Response good p) refetch st2))
           = [Fetch (js ''POST'') (api @ js ''/api/leads/'' @ lid @ js ''/reply'')
                (FormBody [(js ''message'', trim (input st2))]),
              Fetch (js ''GET'') (api @ js ''/api/leads/'' @ lid @ js ''/messages'') NoBody]
       \<and> handleSend1 api lid (Response bad p) refetch st1
           = (st1\<lparr>sending := False\<rparr>,
              [Fetch (js ''POST'') (api @ js ''/leads/'' @ lid @ js ''/reply'')
                 (FormBody [(js ''message'', trim (input st1))]),
               ConsoleError (js ''Send reply failed'')])
       \<and> fst (handleSend2 api lid (Response bad p) refetch st2)
           = st2\<lparr>sending := False, error := Some (js ''Send failed: '' @ show_nat bad)\<rparr>
       \<and> filter is_request (snd (handleSend2 api lid (Response bad p) refetch st2))
           = [Fetch (js ''POST'') (api @ js ''/api/leads/'' @ lid @ js ''/reply'')
                (FormBody [(js ''message'', trim (input st2))])]
       \<and> error (fst (fetchMessages2 api lid r
                    (fst (handleSend2 api lid (Response bad p) refetch st2))))
           = error (fst (fetchMessages2 api lid r st2))"
proof -
  note a = handleSend1_success[OF assms(1,3,4), of api p refetch]
  note b = handleSend2_success[OF assms(2,3,4,6), of api refetch]
  note c = handleSend1_failure[OF assms(1,3,5), of api p refetch]
  note d = handleSend2_failure[OF assms(2,3,5,6), of api refetch]
  have e: "error (fst (fetchMessages2 api lid r
                    (fst (handleSend2 api lid (Response bad p) refetch st2))))
           = error (fst (fetchMessages2 api lid r st2))"
    by (simp add: d fetchMessages2_error_fresh[OF assms(3)])
  have f: "filter is_request (snd (handleSend2 api lid (Response bad p) refetch st2))
           = [Fetch (js ''POST'') (api @ js ''/api/leads/'' @ lid @ js ''/reply'')
                (FormBody [(js ''message'', trim (input st2))])]"
    by (simp add: d)
  have g: "fst (handleSend2 api lid (Response bad p) refetch st2)
           = st2\<lparr>sending := False, error := Some (js ''Send failed: '' @ show_nat bad)\<rparr>"
    by (simp add: d)
  from a(1,3,4) b(1,3,4) c g f e show ?thesis by blast
qed

text \<open>
  An instance: the reply \<open>hello\<close> between two spaces, answered with 200 and with 500.
\<close>

theorem handleSend_outcomes_witness:
  "trim (input ((initial JNull)\<lparr>input := js '' hello ''\<rparr>)) \<noteq> []
   \<and> trim (input ((initial (None :: LeadData option))\<lparr>input := js '' hello ''\<rparr>)) \<noteq> []
   \<and> js ''L1'' \<noteq> [] \<and> ok 200 \<and> \<not> ok 500 \<and> readable (NotJson (js ''done'') [])
   \<and> input (fst (handleSend2 api0 (js ''L1'') (Response 200 (NotJson (js ''done'') []))
                   (Response 200 (Json (LeadData_obj conversation)))
                   ((initial None)\<lparr>input := js '' hello ''\<rparr>))) = []
   \<and> filter is_request (snd (handleSend2 api0 (js ''L1'') (Response 200 (NotJson (js ''done'') []))
                   (Response 200 (Json (LeadData_obj conversation)))
                   ((initial None)\<lparr>input := js '' hello ''\<rparr>)))
       = [Fetch (js ''POST'') (api0 @ js ''/api/leads/'' @ js ''L1'' @ js ''/reply'')
            (FormBody [(js ''message'', js ''hello'')]),
          Fetch (js ''GET'') (api0 @ js ''/api/leads/'' @ js ''L1'' @ js ''/messages'') NoBody]
   \<and> fst (handleSend2 api0 (js ''L1'') (Response 500 (NotJson (js ''done'') []))
            (Response 200 (Json (LeadData_obj conversation)))
            ((initial None)\<lparr>input := js '' hello ''\<rparr>))
       = (initial None)\<lparr>input := js '' hello '', sending := False,
                         error := Some (js ''Send failed: 500'')\<rparr>
   \<and> handleSend1 api0 (js ''L1'') (Response 500 (NotJson (js ''done'') []))
        (Response 200 (Json (LeadData_obj conversation)))
        ((initial JNull)\<lparr>input := js '' hello ''\<rparr>)
       = ((initial JNull)\<lparr>input := js '' hello '', sending := False\<rparr>,
          [Fetch (js ''POST'') (api0 @ js ''/leads/'' @ js ''L1'' @ js ''/reply'')
             (FormBody [(js ''message'', js ''hello'')]),
           ConsoleError (js ''Send reply failed'')])"
proof -
  have h: "trim (input ((initial JNull)\<lparr>input := js '' hello ''\<rparr>)) \<noteq> []"
    "trim (input ((initial (None :: LeadData option))\<lparr>input := js '' hello ''\<rparr>)) \<noteq> []"
    "js ''L1'' \<noteq> []" "ok 200" "\<not> ok 500" "readable (NotJson (js ''done'') [])"
    by (simp_all add: example_send literal_not_Nil readable_def) (simp_all add: js_def)
  have i: "input ((initial JNull)\<lparr>input := js '' hello ''\<rparr>) = js '' hello ''"
    "input ((initial (None :: LeadData option))\<lparr>input := js '' hello ''\<rparr>) = js '' hello ''"
    by simp_all
  have s: "js ''Send failed: '' @ js ''500'' = js ''Send failed: 500''"
    by (simp add: js_def)
  from handleSend_outcomes[OF h, of api0 "Response 200 (Json (LeadData_obj conversation))"]
  show ?thesis
    using h by (simp add: i example_send s)
qed

text \<open>
  C7.  On the second page \<open>handleSend\<close> does what is specified (\<open>handleSend_outcomes\<close>
  above): on success the input is cleared and the conversation fetched once, on a
  status that is no success the error \<open>Send failed:\<close> with the status is set and the
  input kept.  On the first page the input is kept too, but no error is set: for the
  reply \<open>hello\<close> answered with 500, \<open>handleSend\<close> ends with the error still null and
  has only written to the console, where the second page ends with \<open>Send failed: 500\<close>.
\<close>

theorem handleSend1_failure_not_surfaced:
  "handleSend1 api0 (js ''L1'') (Response 500 (NotJson (js ''done'') []))
     (Response 200 (Json (LeadData_obj conversation)))
     ((initial JNull)\<lparr>input := js '' hello ''\<rparr>)
     = ((initial JNull)\<lparr>input := js '' hello '', error := None\<rparr>,
        [Fetch (js ''POST'') (api0 @ js ''/leads/L1/reply'')
           (FormBody [(js ''message'', js ''hello'')]),
         ConsoleError (js ''Send reply failed'')])
   \<and> error (fst (handleSend2 api0 (js ''L1'') (Response 500 (NotJson (js ''done'') []))
                   (Response 200 (Json (LeadData_obj conversation)))
                   ((initial None)\<lparr>input := js '' hello ''\<rparr>)))
       = Some (js ''Send failed: 500'')"
  by code_simp

section \<open>Booking a visit\<close>

lemma handleSubmit_no_date:
  "date st = [] \<Longrightarrow> handleSubmit te ToString toISOString api lid r st
     = (st\<lparr>error_m := Some (js ''Please pick a date and time slot.'')\<rparr>, [])"
  by (simp add: handleSubmit_def)

lemma handleSubmit_OnSuccess_only:
  "OnSuccess \<in> set (snd (handleSubmit te ToString toISOString api lid r st)) \<Longrightarrow>
     \<exists>status data. r = Response status (Json data) \<and> ok status \<and> truthy (getprop data (js ''ok''))"
  by (auto simp: handleSubmit_def Let_def get_def split: if_splits sum.splits response.splits payload.splits)

lemma handleSubmit_booked:
  assumes "date st \<noteq> []" "timeSlot st \<noteq> []" "toISOString (date st) = Inr isoDate"
    and "ok status" "truthy (getprop data (js ''ok''))"
  shows "handleSubmit te ToString toISOString api lid (Response status (Json data)) st
     = (st\<lparr>error_m := None, loading_m := False\<rparr>, [book_request api lid isoDate st, OnSuccess])"
proof -
  have "\<not> nullish data" using assms(5) by (cases data) auto
  then show ?thesis
    using assms by (simp add: handleSubmit_def Let_def get_def book_request_def)
qed

lemma handleSubmit_refused:
  assumes "date st \<noteq> []" "timeSlot st \<noteq> []" "toISOString (date st) = Inr isoDate"
    and "ok status" "\<not> truthy (getprop data (js ''ok''))"
    and "getprop data (js ''error'') = JStr s" "s \<noteq> []"
  shows "handleSubmit te ToString toISOString api lid (Response status (Json data)) st
     = (st\<lparr>error_m := Some s, loading_m := False\<rparr>,
        [book_request api lid isoDate st, ConsoleError (js ''Visit booking error:'')])"
proof -
  have "\<not> nullish data" using assms(6) by (cases data) auto
  then show ?thesis
    using assms
    by (simp add: handleSubmit_def Let_def get_def book_request_def booking_failure_def
          Error_of_def or_default_def)
qed

lemma handleSubmit_not_json:
  assumes "date st \<noteq> []" "timeSlot st \<noteq> []" "toISOString (date st) = Inr isoDate"
    and "\<not> is_json p"
  shows "handleSubmit te ToString toISOString api lid (Response status p) st
     = (st\<lparr>error_m := Some (js ''Booking failed ('' @ show_nat status @ js '')''), loading_m := False\<rparr>,
        [book_request api lid isoDate st, ConsoleError (js ''Visit booking error:'')])"
proof -
  have d: "(case p of Json v \<Rightarrow> v | _ \<Rightarrow> JObj []) = JObj []"
    using assms(4) by (cases p) (simp_all add: is_json_def)
  have e: "js ''Booking failed ('' \<noteq> []" by (simp add: js_def)
  have g: "getprop (JObj []) k = JUndefined" for k by simp
  show ?thesis
    using assms(1-3) e
    by (simp add: handleSubmit_def Let_def d get_def g book_request_def booking_failure_def
          or_default_def del: getprop.simps)
qed


lemma handleSubmit_OnSuccess_iff:
  assumes "date st \<noteq> []" "timeSlot st \<noteq> []" "toISOString (date st) = Inr isoDate"
  shows "OnSuccess \<in> set (snd (handleSubmit te ToString toISOString api lid r st))
     \<longleftrightarrow> (\<exists>status data. r = Response status (Json data) \<and> ok status
                          \<and> truthy (getprop data (js ''ok'')))"
proof
  assume "OnSuccess \<in> set (snd (handleSubmit te ToString toISOString api lid r st))"
  then show "\<exists>status data. r = Response status (Json data) \<and> ok status
                          \<and> truthy (getprop data (js ''ok''))"
    by (rule handleSubmit_OnSuccess_only)
next
  assume "\<exists>status data. r = Response status (Json data) \<and> ok status
                          \<and> truthy (getprop data (js ''ok''))"
  then obtain status data where "r = Response status (Json data)" "ok status"
      "truthy (getprop data (js ''ok''))"
    by blast
  then show "OnSuccess \<in> set (snd (handleSubmit te ToString toISOString api lid r st))"
    using handleSubmit_booked[where toISOString = toISOString and st = st and isoDate = isoDate
        and status = status and data = data and te = te and ToString = ToString and api = api
        and lid = lid] assms
    by simp
qed

lemma example_booking:
  "date modal0 \<noteq> []" "timeSlot modal0 \<noteq> []"
  "toISOString0 (date modal0) = Inr (js ''2024-01-03T10:00:00.000Z'')"
  "ok 200" "truthy (getprop (JObj [(js ''ok'', JBool True)]) (js ''ok''))"
  "\<not> truthy (getprop (JObj [(js ''ok'', JBool False), (js ''error'', JStr (js ''Slot taken''))])
               (js ''ok''))"
  "getprop (JObj [(js ''ok'', JBool False), (js ''error'', JStr (js ''Slot taken''))]) (js ''error'')
     = JStr (js ''Slot taken'')"
  "js ''Slot taken'' \<noteq> []" "\<not> is_json (NotJson (js ''<html>'') [])" "date modal_blank = []"
  by code_simp+

text \<open>
  C10.  With a date and a time slot picked (and a date that converts), \<open>handleSubmit\<close>
  calls \<open>onSuccess\<close> exactly when the response has a success status and a JSON body whose
  \<open>ok\<close> is truthy, and then sets no error.  A success status with a falsy \<open>ok\<close> is a
  failure: the error shown is the body's \<open>error\<close> string, and \<open>onSuccess\<close> is not called.
  A body that is not JSON counts as \<open>{}\<close> and is a failure too, with the error
  \<open>Booking failed (status)\<close>.  With no date picked, the error asks for one and nothing
  is sent.
\<close>

theorem handleSubmit_outcomes:
  assumes "date st \<noteq> []" and "timeSlot st \<noteq> []" and "toISOString (date st) = Inr isoDate"
    and "ok status" and "truthy (getprop booked (js ''ok''))"
    and "\<not> truthy (getprop refused (js ''ok''))"
    and "getprop refused (js ''error'') = JStr s" and "s \<noteq> []"
    and "\<not> is_json p" and "date blank = []"
  shows "(OnSuccess \<in> set (snd (handleSubmit te ToString toISOString api lid r st))
           \<longleftrightarrow> (\<exists>status data. r = Response status (Json data) \<and> ok status
                                \<and> truthy (getprop data (js ''ok''))))
       \<and> handleSubmit te ToString toISOString api lid (Response status (Json booked)) st
           = (st\<lparr>error_m := None, loading_m := False\<rparr>,
              [book_request api lid isoDate st, OnSuccess])
       \<and> handleSubmit te ToString toISOString api lid (Response status (Json refused)) st
           = (st\<lparr>error_m := Some s, loading_m := False\<rparr>,
              [book_request api lid isoDate st, ConsoleError (js ''Visit booking error:'')])
       \<and> handleSubmit te ToString toISOString api lid (Response any p) st
           = (st\<lparr>error_m := Some (js ''Booking failed ('' @ show_nat any @ js '')''),
                  loading_m := False\<rparr>,
              [book_request api lid isoDate st, ConsoleError (js ''Visit booking error:'')])
       \<and> handleSubmit te ToString toISOString api lid r blank
           = (blank\<lparr>error_m := Some (js ''Please pick a date and time slot.'')\<rparr>, [])"
proof -
  note a = handleSubmit_OnSuccess_iff[where toISOString = toISOString and st = st, OF assms(1-3)]
  note b = handleSubmit_booked[where toISOString = toISOString and st = st, OF assms(1-5)]
  note c = handleSubmit_refused[where toISOString = toISOString and st = st, OF assms(1-4,6-8)]
  note d = handleSubmit_not_json[where toISOString = toISOString and st = st, OF assms(1-3,9)]
  note e = handleSubmit_no_date[OF assms(10)]
  show ?thesis
    by (simp only: a b c d e simp_thms)
qed

text \<open>
  An instance: a visit on 2024-01-03 at 10:00, answered 200 with \<open>{ok: true}\<close>, 200 with
  \<open>{ok: false, error: "Slot taken"}\<close>, 502 with an HTML page; and the modal as it opens.
\<close>

theorem handleSubmit_outcomes_witness:
  "date modal0 \<noteq> [] \<and> timeSlot modal0 \<noteq> []
   \<and> toISOString0 (date modal0) = Inr (js ''2024-01-03T10:00:00.000Z'')
   \<and> ok 200 \<and> truthy (getprop (JObj [(js ''ok'', JBool True)]) (js ''ok''))
   \<and> \<not> truthy (getprop (JObj [(js ''ok'', JBool False), (js ''error'', JStr (js ''Slot taken''))])
                 (js ''ok''))
   \<and> getprop (JObj [(js ''ok'', JBool False), (js ''error'', JStr (js ''Slot taken''))]) (js ''error'')
       = JStr (js ''Slot taken'')
   \<and> js ''Slot taken'' \<noteq> [] \<and> \<not> is_json (NotJson (js ''<html>'') []) \<and> date modal_blank = []
   \<and> OnSuccess \<in> set (snd (handleSubmit [] ToString0 toISOString0 api0 (js ''L1'')
                            (Response 200 (Json (JObj [(js ''ok'', JBool True)]))) modal0))
   \<and> handleSubmit [] ToString0 toISOString0 api0 (js ''L1'')
        (Response 200 (Json (JObj [(js ''ok'', JBool False),
                                   (js ''error'', JStr (js ''Slot taken''))]))) modal0
       = (modal0\<lparr>error_m := Some (js ''Slot taken''), loading_m := False\<rparr>,
          [book_request api0 (js ''L1'') (js ''2024-01-03T10:00:00.000Z'') modal0,
           ConsoleError (js ''Visit booking error:'')])
   \<and> handleSubmit [] ToString0 toISOString0 api0 (js ''L1'')
        (Response 502 (NotJson (js ''<html>'') [])) modal0
       = (modal0\<lparr>error_m := Some (js ''Booking failed ('' @ show_nat 502 @ js '')''),
                  loading_m := False\<rparr>,
          [book_request api0 (js ''L1'') (js ''2024-01-03T10:00:00.000Z'') modal0,
           ConsoleError (js ''Visit booking error:'')])
   \<and> handleSubmit [] ToString0 toISOString0 api0 (js ''L1'')
        (Response 200 (Json (JObj [(js ''ok'', JBool True)]))) modal_blank
       = (modal_blank\<lparr>error_m := Some (js ''Please pick a date and time slot.'')\<rparr>, [])"
proof -
  note h = example_booking
  from handleSubmit_outcomes[where toISOString = toISOString0 and st = modal0 and te = "[]"
      and ToString = ToString0 and api = api0 and lid = "js ''L1''" and any = 502
      and r = "Response 200 (Json (JObj [(js ''ok'', JBool True)]))", OF h]
  show ?thesis
    using h by simp
qed

section \<open>The insights tab\<close>

text \<open>Powers of two, and the exponent of the leading bit.\<close>

lemma two_powi_pos: "(0::rat) < 2 powi k"
  by (simp add: zero_less_power_int)

lemma two_powi_less: "a < b \<Longrightarrow> (2::rat) powi a < 2 powi b"
  by (rule power_int_strict_increasing) simp_all

lemma two_powi_le: "a \<le> b \<Longrightarrow> (2::rat) powi a \<le> 2 powi b"
  by (rule power_int_increasing) simp_all

lemma two_powi_less_D: "(2::rat) powi a < 2 powi b \<Longrightarrow> a < b"
  using two_powi_le[of b a] by (cases "a < b") simp_all

lemma two_powi_split: "(2::rat) powi (a - b) = 2 powi a / 2 powi b"
  by (simp add: power_int_diff)

lemma bitlen_pos: "0 < p \<Longrightarrow> 1 \<le> bitlen p"
  using bitlen_eq_zero_iff[of p] bitlen_nonneg[of p] by linarith

lemma bitlen_rat:
  assumes "0 < p"
  shows "2 powi (bitlen p - 1) \<le> (of_int p :: rat)" and "(of_int p :: rat) < 2 powi (bitlen p)"
proof -
  define a where "a = nat (bitlen p - 1)"
  have la: "bitlen p - 1 = int a" "bitlen p = int (Suc a)"
    using bitlen_pos[OF assms] by (simp_all add: a_def)
  have na: "nat (bitlen p - 1) = a" "nat (bitlen p) = Suc a"
    using bitlen_pos[OF assms] by (simp_all add: a_def)
  have b: "2 ^ a \<le> p" "p < 2 ^ Suc a"
    using bitlen_bounds[OF assms] unfolding na by blast+
  have "(of_int (2 ^ a) :: rat) \<le> of_int p" using b(1) by (simp only: of_int_le_iff)
  then show "2 powi (bitlen p - 1) \<le> (of_int p :: rat)"
    unfolding la(1) power_int_of_nat by simp
  have "(of_int p :: rat) < of_int (2 ^ Suc a)" using b(2) by (simp only: of_int_less_iff)
  then show "(of_int p :: rat) < 2 powi (bitlen p)"
    unfolding la(2) power_int_of_nat by simp
qed

lemma ilog2_bounds:
  assumes "0 < x"
  shows "2 powi (ilog2 x) \<le> x" and "x < 2 powi (ilog2 x + 1)"
proof -
  obtain p q where pq: "quotient_of x = (p, q)" by (cases "quotient_of x")
  have q: "0 < q" using quotient_of_denom_pos[OF pq] .
  have x: "x = of_int p / of_int q" using quotient_of_div[OF pq] .
  have p: "0 < p" using assms x q by (simp add: zero_less_divide_iff)
  define k where "k = bitlen p - bitlen q"
  note P = bitlen_rat[OF p] and Q = bitlen_rat[OF q]
  have qq: "(0::rat) < of_int q" using q by simp
  have "x * 2 powi (bitlen q - 1) \<le> x * of_int q"
    using Q(1) assms by (simp add: mult_left_mono)
  also have "\<dots> = of_int p" using x qq by simp
  also have "\<dots> < 2 powi (bitlen p)" by (rule P(2))
  finally have "x < 2 powi (bitlen p) / 2 powi (bitlen q - 1)"
    using two_powi_pos[of "bitlen q - 1"] by (simp add: pos_less_divide_eq)
  also have "\<dots> = 2 powi (k + 1)"
    unfolding two_powi_split[symmetric] k_def by (simp add: algebra_simps)
  finally have hi: "x < 2 powi (k + 1)" .
  have "2 powi (bitlen p - 1) \<le> (of_int p :: rat)" by (rule P(1))
  also have "\<dots> = x * of_int q" using x qq by simp
  also have "\<dots> < x * 2 powi (bitlen q)"
    using Q(2) assms by (simp add: mult_strict_left_mono)
  finally have "2 powi (bitlen p - 1) / 2 powi (bitlen q) < x"
    using two_powi_pos[of "bitlen q"] by (simp add: pos_divide_less_eq)
  then have lo: "2 powi (k - 1) < x"
    unfolding two_powi_split[symmetric] k_def by (simp add: algebra_simps)
  have i: "ilog2 x = (if 2 powi k \<le> x then k else k - 1)"
    by (simp add: ilog2_def pq k_def Let_def)
  show "2 powi (ilog2 x) \<le> x"
    using lo by (simp add: i)
  show "x < 2 powi (ilog2 x + 1)"
    using hi by (simp add: i)
qed

text \<open>Rounding to 53 bits is off by at most one part in \<open>2^53\<close>.\<close>

lemma ties_even_near: "\<bar>of_int (ties_even x) - x\<bar> \<le> 1 / 2"
  using floor_correct[of x] by (auto simp: ties_even_def Let_def)

lemma ties_even_floor: "\<lfloor>x\<rfloor> \<le> ties_even x"
  by (simp add: ties_even_def Let_def)

lemma fl_normal:
  assumes "2 powi (- 1022) \<le> x" and "x < 2 powi 1023"
  shows "\<exists>r. fl x = Fin r \<and> 0 < r \<and> \<bar>r - x\<bar> \<le> x / 2 ^ 53"
proof -
  have x: "0 < x" using assms(1) two_powi_pos[of "- 1022"] by linarith
  define e where "e = ilog2 x"
  note b = ilog2_bounds[OF x, folded e_def]
  have "(2::rat) powi (- 1022) < 2 powi (e + 1)" using assms(1) b(2) by linarith
  then have e1: "- 1022 \<le> e" using two_powi_less_D by fastforce
  have "(2::rat) powi e < 2 powi 1023" using assms(2) b(1) by linarith
  then have e2: "e \<le> 1022" using two_powi_less_D by fastforce
  define u :: rat where "u = 2 powi (e - 52)"
  have u: "0 < u" by (simp add: u_def two_powi_pos)
  have eu: "2 powi e = 2 ^ 52 * u" "2 powi (e + 1) = 2 ^ 53 * u"
    by (simp_all add: u_def power_int_diff power_int_add)
  define n where "n = ties_even (x / u)"
  have m: "2 ^ 52 \<le> x / u" using b(1) u by (simp add: eu pos_le_divide_eq)
  then have "(2::int) ^ 52 \<le> \<lfloor>x / u\<rfloor>" by (simp add: le_floor_iff)
  then have n: "2 ^ 52 \<le> n" unfolding n_def using ties_even_floor[of "x / u"] by (rule order_trans)
  have f: "fl x = Fin (of_int n * u)"
    using x e1 e2 n by (simp add: fl_def Let_def e_def[symmetric] u_def[symmetric] n_def[symmetric])
  have "of_int n * u - x = u * (of_int n - x / u)"
    using u by (simp add: field_simps)
  then have "\<bar>of_int n * u - x\<bar> = u * \<bar>of_int n - x / u\<bar>"
    using u by (simp add: abs_mult)
  also have "\<dots> \<le> u * (1 / 2)"
    using ties_even_near[of "x / u"] u unfolding n_def by (simp only: mult_left_mono less_imp_le)
  also have "\<dots> = 2 powi e / 2 ^ 53" by (simp add: eu)
  also have "\<dots> \<le> x / 2 ^ 53" using b(1) by (simp add: divide_right_mono)
  finally have d: "\<bar>of_int n * u - x\<bar> \<le> x / 2 ^ 53" .
  have "0 < of_int n * u" using n u by simp
  then show ?thesis using f d by blast
qed


lemma two_powi_numeral: "(2::rat) powi 53 = 2 ^ 53" "(2::rat) powi (- 53) = 1 / 2 ^ 53"
  "(2::rat) powi 61 = 2 ^ 61"
  by (simp_all add: power_int_minus field_simps)

lemma fl_moderate:
  assumes "1 / 2 ^ 53 \<le> x" and "x < 2 ^ 61"
  obtains r where "fl x = Fin r" and "0 < r" and "\<bar>r - x\<bar> \<le> x / 2 ^ 53"
proof -
  have "(2::rat) powi (- 1022) \<le> 2 powi (- 53)" by (rule two_powi_le) simp
  then have 1: "2 powi (- 1022) \<le> x" using assms(1) by (simp only: two_powi_numeral)
  have "(2::rat) powi 61 \<le> 2 powi 1023" by (rule two_powi_le) simp
  then have 2: "x < 2 powi 1023" using assms(2) by (simp only: two_powi_numeral)
  from fl_normal[OF 1 2] that show ?thesis by blast
qed

text \<open>The percentage of two counts.\<close>

lemma count_cases:
  assumes "count a"
  obtains n :: nat where "a = Fin (of_nat n)" and "n < 2 ^ 53"
proof (cases a)
  case (Fin q)
  then have q: "of_int \<lfloor>q\<rfloor> = q" "0 \<le> q" "q < 2 ^ 53" using assms by simp_all
  have f: "0 \<le> \<lfloor>q\<rfloor>" using q(2) by simp
  have 1: "(of_nat (nat \<lfloor>q\<rfloor>) :: rat) = q"
    using q(1) f by (metis of_nat_nat)
  have "\<lfloor>q\<rfloor> < 2 ^ 53" using q(3) by (simp add: floor_less_iff)
  then have 2: "nat \<lfloor>q\<rfloor> < 2 ^ 53" using f by (simp add: nat_less_iff)
  show ?thesis using that[of "nat \<lfloor>q\<rfloor>"] Fin 1 2 by simp
qed (use assms in simp_all)

lemma round_fin:
  assumes "0 \<le> r"
  shows "Math_round (Fin r) = Fin (of_nat (nat \<lfloor>r + 1 / 2\<rfloor>))"
    and "\<bar>of_nat (nat \<lfloor>r + 1 / 2\<rfloor>) - r\<bar> \<le> 1 / 2"
proof -
  have f: "0 \<le> \<lfloor>r + 1 / 2\<rfloor>" using assms by simp
  then have n: "(of_nat (nat \<lfloor>r + 1 / 2\<rfloor>) :: rat) = of_int \<lfloor>r + 1 / 2\<rfloor>" by simp
  show "Math_round (Fin r) = Fin (of_nat (nat \<lfloor>r + 1 / 2\<rfloor>))"
    using assms unfolding n by (simp add: Let_def)
  show "\<bar>of_nat (nat \<lfloor>r + 1 / 2\<rfloor>) - r\<bar> \<le> 1 / 2"
    unfolding n using floor_correct[of "r + 1 / 2"] by linarith
qed

lemma toString_nat:
  "Number_toString big (Fin (of_nat k)) = (if k < 2 ^ 53 then show_nat k else big (of_nat k))"
proof -
  have 1: "\<lfloor>of_nat k :: rat\<rfloor> = int k" by simp
  have 2: "(\<bar>of_nat k :: rat\<bar> < 2 ^ 53) = (k < 2 ^ 53)"
    by (simp add: of_nat_less_numeral_power_cancel_iff)
  show ?thesis
    unfolding Number_toString.simps 1 2 by (simp add: show_int_def)
qed

lemma percentage_of_counts:
  assumes "count a" and "count b" and "\<not> is_zero b"
  shows "\<exists>k. nearest_percent a b k
           \<and> Number_toString big (Math_round (nmul (ndiv a b) (Fin 100)))
               = (if k < 2 ^ 53 then show_nat k else big (of_nat k))"
proof -
  obtain i where a: "a = Fin (of_nat i)" and i: "i < 2 ^ 53"
    using assms(1) by (rule count_cases)
  obtain j where b: "b = Fin (of_nat j)" and j: "j < 2 ^ 53"
    using assms(2) by (rule count_cases)
  have j0: "0 < j" using assms(3) b by simp
  show ?thesis
  proof (cases "i = 0")
    case True
    have "nmul (ndiv a b) (Fin 100) = Fin 0"
      using j0 by (simp add: ndiv_def nmul_def a b True zero_of_def)
    moreover have "\<lfloor>1 / 2 :: rat\<rfloor> = 0" by (simp add: floor_eq_iff)
    ultimately have "Number_toString big (Math_round (nmul (ndiv a b) (Fin 100))) = show_nat 0"
      using toString_nat[of big 0] by (simp add: Let_def)
    moreover have "nearest_percent a b 0"
      by (simp add: nearest_percent_def a True)
    ultimately show ?thesis by (intro exI[of _ 0]) simp
  next
    case False
    define x :: rat where "x = of_nat i / of_nat j"
    have jr: "(0::rat) < of_nat j" "(of_nat j :: rat) \<le> 2 ^ 53" "(1::rat) \<le> of_nat j"
      using j0 j of_nat_mono[of 1 j, where ?'a = rat] of_nat_mono[of j "2 ^ 53", where ?'a = rat]
      by simp_all
    have ir: "(1::rat) \<le> of_nat i" "(of_nat i :: rat) < 2 ^ 53"
      using False i of_nat_mono[of 1 i, where ?'a = rat]
        of_nat_less_iff[of i "2 ^ 53", where ?'a = rat]
      by simp_all
    have "1 / 2 ^ 53 \<le> 1 / (of_nat j :: rat)"
      using jr by (simp add: frac_le)
    also have "\<dots> \<le> x" unfolding x_def using ir(1) jr(1) by (simp add: divide_right_mono)
    finally have xlo: "1 / 2 ^ 53 \<le> x" .
    have "x \<le> of_nat i / 1" unfolding x_def using jr(3) ir(1) by (intro divide_left_mono) simp_all
    then have xhi: "x < 2 ^ 53" using ir(2) by simp
    have x0: "0 < x" using xlo by (simp add: order_less_le_trans[rotated])
    have "x < 2 ^ 61" using xhi by simp
    with xlo obtain r1 where r1: "fl x = Fin r1" "0 < r1" "\<bar>r1 - x\<bar> \<le> x / 2 ^ 53"
      by (rule fl_moderate)
    have d: "ndiv a b = Fin r1"
      using j0 False r1(1) by (simp add: ndiv_def a b x_def)
    define c where "c = x / 2 ^ 53"
    have c: "x = 9007199254740992 * c" by (simp add: c_def)
    have c0: "0 < c" using x0 by (simp add: c_def)
    have r1c: "\<bar>r1 - x\<bar> \<le> c" using r1(3) by (simp only: c_def)
    have xlo': "1 \<le> 9007199254740992 * x" using xlo by (simp add: field_simps)
    have xhi': "x < 9007199254740992" using xhi by simp
    have "1 \<le> 9007199254740992 * (r1 * 100)" using xlo' r1c c c0 by linarith
    then have ylo: "1 / 2 ^ 53 \<le> r1 * 100" by (simp add: field_simps)
    have "r1 * 100 < 2305843009213693952" using xhi' r1c c c0 by linarith
    then have yhi: "r1 * 100 < 2 ^ 61" by simp
    obtain r2 where r2: "fl (r1 * 100) = Fin r2" "0 < r2" "\<bar>r2 - r1 * 100\<bar> \<le> r1 * 100 / 2 ^ 53"
      using ylo yhi by (rule fl_moderate)
    have m: "nmul (ndiv a b) (Fin 100) = Fin r2"
      using r1(2) r2(1) by (simp add: d nmul_def)
    define k where "k = nat \<lfloor>r2 + 1 / 2\<rfloor>"
    have rr: "Math_round (Fin r2) = Fin (of_nat k)" "\<bar>of_nat k - r2\<bar> \<le> 1 / 2"
      using round_fin[of r2] r2(2) by (simp_all add: k_def)
    define d' where "d' = r1 * 100 / 2 ^ 53"
    have d': "r1 * 100 = 9007199254740992 * d'" by (simp add: d'_def)
    have r2d: "\<bar>r2 - r1 * 100\<bar> \<le> d'" using r2(3) by (simp only: d'_def)
    have "\<bar>of_nat k - 100 * x\<bar> \<le> 1 / 2 + 400 * c"
      using rr(2) r2d d' r1c c c0 by linarith
    then have "\<bar>of_nat k - 100 * x\<bar> \<le> 1 / 2 + 100 * x / 2 ^ 51"
      by (simp add: c)
    then have "nearest_percent a b k"
      by (simp add: nearest_percent_def a b x_def)
    moreover have "Number_toString big (Math_round (nmul (ndiv a b) (Fin 100)))
               = (if k < 2 ^ 53 then show_nat k else big (of_nat k))"
      unfolding m rr(1) by (rule toString_nat)
    ultimately show ?thesis by blast
  qed
qed


text \<open>Numerals.\<close>

lemma digit_char: "n < 10 \<Longrightarrow> is_digit (of_nat (48 + n))"
  by (simp add: is_digit_def word_le_nat_alt unat_of_nat del: of_nat_add)

lemma show_nat_digits: "\<forall>c\<in>set (show_nat n). is_digit c"
proof (induction n rule: show_nat.induct)
  case (1 n)
  show ?case
  proof (cases "n < 10")
    case True
    then show ?thesis by (subst show_nat.simps) (simp add: digit_char del: of_nat_add)
  next
    case False
    then show ?thesis
      using "1.IH" by (subst show_nat.simps) (simp add: digit_char del: of_nat_add)
  qed
qed

lemma show_nat_not_Nil: "show_nat n \<noteq> []"
  by (subst show_nat.simps) simp

lemma percent_numeral_show_nat: "percent_numeral (show_nat k @ js ''%'')"
  using show_nat_digits[of k] show_nat_not_Nil[of k]
  by (simp add: percent_numeral_def js_def list_all_iff)

lemma zero_percent: "js ''0%'' = show_nat 0 @ js ''%''"
  by (simp add: show_nat.simps js_def)

lemma not_percent_numeral:
  "\<not> percent_numeral (js ''NaN%'')" "\<not> percent_numeral (js ''Infinity%'')"
  "\<not> percent_numeral (js ''undefined%'')"
  by code_simp+

lemma count_guard: "count b \<Longrightarrow> gt0 b = (\<not> is_zero b)"
  by (cases b) auto

lemma percent_guard:
  "\<not> gt0 (totalLeads metrics) \<Longrightarrow> hotShare big metrics = js ''0%''"
  "\<not> gt0 (totalLeads metrics) \<Longrightarrow> fakeRate big metrics = js ''0%''"
  "\<not> gt0 (whatsappIn metrics) \<Longrightarrow> aiReplyCoverage big metrics = js ''0%''"
  by (simp_all add: hotShare_def fakeRate_def aiReplyCoverage_def)

lemma shown_percentage_counts:
  assumes "count a" and "count b"
  shows "shown_percentage big a b
           (if gt0 b then Number_toString big (Math_round (nmul (ndiv a b) (Fin 100))) @ js ''%''
            else js ''0%'')"
proof (cases "is_zero b")
  case True
  then show ?thesis using count_guard[OF assms(2)] by (simp add: shown_percentage_def)
next
  case False
  from percentage_of_counts[OF assms False, of big] False count_guard[OF assms(2)]
  show ?thesis by (auto simp: shown_percentage_def)
qed

lemma moderate_percent_numeral:
  assumes "count a" and "count b" and "exact a \<le> 2 ^ 45 * exact b"
    and "shown_percentage big a b s"
  shows "percent_numeral s"
proof (cases "is_zero b")
  case True
  then have "s = js ''0%''" using assms(4) by (simp add: shown_percentage_def)
  then show ?thesis using percent_numeral_show_nat[of 0] by (simp add: zero_percent)
next
  case False
  obtain k where k: "nearest_percent a b k"
      "s = (if k < 2 ^ 53 then show_nat k else big (of_nat k)) @ js ''%''"
    using assms(4) False by (auto simp: shown_percentage_def)
  obtain j where b: "b = Fin (of_nat j)" using assms(2) by (rule count_cases)
  have j0: "(0::rat) < of_nat j" using False b by simp
  define x where "x = exact a / exact b"
  have "x \<le> 2 ^ 45" using assms(3) j0 by (simp add: x_def b pos_divide_le_eq)
  then have x: "x \<le> 35184372088832" by simp
  have "\<bar>of_nat k - 100 * x\<bar> \<le> 1 / 2 + 100 * x / 2 ^ 51"
    using k(1) by (simp add: nearest_percent_def x_def)
  then have "\<bar>of_nat k - 100 * x\<bar> \<le> 1 / 2 + 100 * x / 2251799813685248" by simp
  then have "(of_nat k :: rat) < 9007199254740992" using x by linarith
  then have "(of_nat k :: rat) < of_nat (2 ^ 53)" by simp
  then have "k < 2 ^ 53" by (simp only: of_nat_less_iff)
  then show ?thesis using k(2) percent_numeral_show_nat[of k] by simp
qed

lemma example_metrics:
  "count (totalLeads metrics0)" "count (hotLeads metrics0)" "count (fakeLeads metrics0)"
  "count (whatsappIn metrics0)" "count (whatsappOutAI metrics0)"
  "hotShare big0 metrics0 = js ''14%''" "fakeRate big0 metrics0 = js ''1%''"
  "aiReplyCoverage big0 metrics0 = js ''0%''"
  "\<not> gt0 (whatsappIn metrics0)"
  "exact (hotLeads metrics0) \<le> 2 ^ 45 * exact (totalLeads metrics0)"
  "exact (fakeLeads metrics0) \<le> 2 ^ 45 * exact (totalLeads metrics0)"
  "exact (whatsappOutAI metrics0) \<le> 2 ^ 45 * exact (whatsappIn metrics0)"
  by code_simp+

lemma example_metrics_empty:
  "\<not> gt0 (totalLeads metrics_empty)"
  "count (whatsappIn metrics_empty)" "count (whatsappOutAI metrics_empty)"
  "hotShare big0 metrics_empty = js ''0%''" "fakeRate big0 metrics_empty = js ''0%''"
  "aiReplyCoverage big0 metrics_empty = js ''75%''"
  by code_simp+

text \<open>
  C9.  Each of the three percentages is the string \<open>0%\<close> whenever its denominator
  (\<open>totalLeads\<close>, \<open>whatsappIn\<close>) is not greater than zero: zero, and also negative or \<open>NaN\<close>.
  For metrics that are counts it shows the percentage: \<open>0%\<close> at a zero denominator,
  otherwise the numeral of the nearest integer to a hundred times the quotient (up to
  the rounding error of the two operations), followed by \<open>%\<close>.  Where the quotient is
  at most \<open>2^45\<close>, as it is for a share of the whole, this is a decimal numeral followed
  by \<open>%\<close>, and never \<open>NaN%\<close>.
\<close>

theorem percent_helpers_on_counts:
  "(\<not> gt0 (totalLeads metrics)
       \<longrightarrow> hotShare big metrics = js ''0%'' \<and> fakeRate big metrics = js ''0%'')
   \<and> (\<not> gt0 (whatsappIn metrics) \<longrightarrow> aiReplyCoverage big metrics = js ''0%'')
   \<and> (count (hotLeads metrics) \<and> count (totalLeads metrics)
       \<longrightarrow> shown_percentage big (hotLeads metrics) (totalLeads metrics) (hotShare big metrics))
   \<and> (count (fakeLeads metrics) \<and> count (totalLeads metrics)
       \<longrightarrow> shown_percentage big (fakeLeads metrics) (totalLeads metrics) (fakeRate big metrics))
   \<and> (count (whatsappOutAI metrics) \<and> count (whatsappIn metrics)
       \<longrightarrow> shown_percentage big (whatsappOutAI metrics) (whatsappIn metrics)
             (aiReplyCoverage big metrics))
   \<and> (count (hotLeads metrics) \<and> count (totalLeads metrics)
         \<and> exact (hotLeads metrics) \<le> 2 ^ 45 * exact (totalLeads metrics)
       \<longrightarrow> percent_numeral (hotShare big metrics) \<and> hotShare big metrics \<noteq> js ''NaN%'')
   \<and> (count (fakeLeads metrics) \<and> count (totalLeads metrics)
         \<and> exact (fakeLeads metrics) \<le> 2 ^ 45 * exact (totalLeads metrics)
       \<longrightarrow> percent_numeral (fakeRate big metrics) \<and> fakeRate big metrics \<noteq> js ''NaN%'')
   \<and> (count (whatsappOutAI metrics) \<and> count (whatsappIn metrics)
         \<and> exact (whatsappOutAI metrics) \<le> 2 ^ 45 * exact (whatsappIn metrics)
       \<longrightarrow> percent_numeral (aiReplyCoverage big metrics)
           \<and> aiReplyCoverage big metrics \<noteq> js ''NaN%'')"
proof -
  have h: "shown_percentage big (hotLeads metrics) (totalLeads metrics) (hotShare big metrics)"
    if "count (hotLeads metrics)" "count (totalLeads metrics)"
    unfolding hotShare_def by (rule shown_percentage_counts[OF that])
  have f: "shown_percentage big (fakeLeads metrics) (totalLeads metrics) (fakeRate big metrics)"
    if "count (fakeLeads metrics)" "count (totalLeads metrics)"
    unfolding fakeRate_def by (rule shown_percentage_counts[OF that])
  have a: "shown_percentage big (whatsappOutAI metrics) (whatsappIn metrics)
             (aiReplyCoverage big metrics)"
    if "count (whatsappOutAI metrics)" "count (whatsappIn metrics)"
    unfolding aiReplyCoverage_def by (rule shown_percentage_counts[OF that])
  have n: "percent_numeral s \<and> s \<noteq> js ''NaN%''"
    if "count x" "count y" "exact x \<le> 2 ^ 45 * exact y" "shown_percentage big x y s" for x y s
    using moderate_percent_numeral[OF that] not_percent_numeral(1) by auto
  show ?thesis
    using percent_guard[of metrics big] h f a n by blast
qed

text \<open>
  Two instances.  29 hot and 1 fake of 200 leads, no message in: in floating point
  \<open>29 / 200 * 100\<close> is just below 14.5, and rounds to 14.  No lead at all, and 9 replies
  to 12 messages in.
\<close>

theorem percent_helpers_on_counts_witness:
  "count (totalLeads metrics0) \<and> count (hotLeads metrics0) \<and> count (fakeLeads metrics0)
   \<and> count (whatsappIn metrics0) \<and> count (whatsappOutAI metrics0)
   \<and> exact (hotLeads metrics0) \<le> 2 ^ 45 * exact (totalLeads metrics0)
   \<and> exact (fakeLeads metrics0) \<le> 2 ^ 45 * exact (totalLeads metrics0)
   \<and> exact (whatsappOutAI metrics0) \<le> 2 ^ 45 * exact (whatsappIn metrics0)
   \<and> \<not> gt0 (whatsappIn metrics0) \<and> \<not> gt0 (totalLeads metrics_empty)
   \<and> hotShare big0 metrics0 = js ''14%'' \<and> fakeRate big0 metrics0 = js ''1%''
   \<and> aiReplyCoverage big0 metrics0 = js ''0%''
   \<and> hotShare big0 metrics_empty = js ''0%'' \<and> fakeRate big0 metrics_empty = js ''0%''
   \<and> shown_percentage big0 (hotLeads metrics0) (totalLeads metrics0) (js ''14%'')
   \<and> shown_percentage big0 (fakeLeads metrics0) (totalLeads metrics0) (js ''1%'')
   \<and> shown_percentage big0 (whatsappOutAI metrics0) (whatsappIn metrics0) (js ''0%'')
   \<and> percent_numeral (js ''14%'') \<and> percent_numeral (js ''1%'') \<and> percent_numeral (js ''0%'')
   \<and> js ''14%'' \<noteq> js ''NaN%'' \<and> js ''1%'' \<noteq> js ''NaN%'' \<and> js ''0%'' \<noteq> js ''NaN%''"
proof -
  note e = example_metrics
  note t = percent_helpers_on_counts[of metrics0 big0, unfolded e(6-8)]
  note u = percent_helpers_on_counts[of metrics_empty big0]
  have 1: "hotShare big0 metrics_empty = js ''0%''" "fakeRate big0 metrics_empty = js ''0%''"
    using u example_metrics_empty(1) by blast+
  show ?thesis
    using t 1 e example_metrics_empty(1) by blast
qed

text \<open>
  Of metrics that are not counts the percentage can be \<open>NaN%\<close>: when the hot leads are
  missing, and when both numbers are infinite.  And where the total is negative the
  result is \<open>0%\<close>, not the rounded quotient.
\<close>

theorem percent_helpers_not_counts_counterexample:
  "hotLeads metrics_missing = NaN \<and> totalLeads metrics_missing = Fin 200
   \<and> hotShare big0 metrics_missing = js ''NaN%''
   \<and> hotLeads metrics_huge = PosInf \<and> totalLeads metrics_huge = PosInf
   \<and> hotShare big0 metrics_huge = js ''NaN%''
   \<and> hotLeads metrics_negative = Fin 29 \<and> totalLeads metrics_negative = Fin (- 5)
   \<and> hotShare big0 metrics_negative = js ''0%''
   \<and> Number_toString big0 (Math_round (nmul (ndiv (Fin 29) (Fin (- 5))) (Fin 100))) = js ''-580''"
  by code_simp

end
